theory Spec2Isabelle
  imports Main
begin

section \<open>Python values, errors and effects\<close>

text \<open>
  The module \<^verbatim>\<open>amdnet_effu.py\<close> defines two classes, \<^verbatim>\<open>BasicConvBlock\<close> and
  \<^verbatim>\<open>AMDNet_EFFU\<close>. Their constructors validate a configuration and build lists of
  layers; \<^verbatim>\<open>forward\<close> wires these layers into a fixed graph; \<^verbatim>\<open>train\<close> switches
  the training flags of the module tree. The embedding keeps the configuration values
  Python passes around, models every \<^verbatim>\<open>assert\<close>, \<^verbatim>\<open>raise\<close> and out-of-range
  index as an error value, and records warnings and executed layers in an event log.
\<close>

datatype pyval = VStr string | VInt int | VList "pyval list"

type_synonym pydict = "(string \<times> pyval) list"

text \<open>\<^verbatim>\<open>init_cfg\<close> is \<^verbatim>\<open>None\<close>, a dict or a list of dicts.\<close>

datatype init_cfg_t = InitNone | InitDict pydict | InitList "pydict list"

text \<open>
  \<^verbatim>\<open>pretrained\<close> is \<^verbatim>\<open>None\<close>, a \<^verbatim>\<open>str\<close>, or an object of any other type, of which
  only the truth value matters to the code.
\<close>

datatype pretrained_t = PretrainedNone | PretrainedStr string | PretrainedOther bool

fun truthy_init :: "init_cfg_t \<Rightarrow> bool" where
  "truthy_init InitNone = False"
| "truthy_init (InitDict d) = (d \<noteq> [])"
| "truthy_init (InitList ds) = (ds \<noteq> [])"

fun truthy_pretrained :: "pretrained_t \<Rightarrow> bool" where
  "truthy_pretrained PretrainedNone = False"
| "truthy_pretrained (PretrainedStr s) = (s \<noteq> [])"
| "truthy_pretrained (PretrainedOther b) = b"

datatype seq_val = IntSeq "int list" | BoolSeq "bool list"

datatype expected_len = EqNumStages | EqNumStagesMinus1

text \<open>
  The assertion messages of the source, by their content: the two fixed texts, the
  length message (sequence name, the expected length as the message words it, the
  sequence, its length, \<^verbatim>\<open>num_stages\<close>) and the divisibility message (height, width,
  rate, \<^verbatim>\<open>num_stages\<close>, \<^verbatim>\<open>strides\<close>, \<^verbatim>\<open>downsamples\<close>).
\<close>

datatype assert_msg =
    InitCfgAndPretrained
  | NotImplementedYet
  | LengthMismatch string expected_len seq_val nat int
  | NotDivisible nat nat nat int "int list" "bool list"

datatype error = AssertionError assert_msg | TypeError string | IndexError | RuntimeError

text \<open>
  A learned layer is identified by where it sits in the model: the module list, the
  index in it, the position in the \<^verbatim>\<open>nn.Sequential\<close> of that entry and the index of
  the convolution in the block.
\<close>

datatype module_id =
    Effu_cbam nat
  | Effu_c1 nat nat
  | Effu_c2 nat nat nat
  | Decoder nat nat

datatype event =
    Warn string
  | ExecConv module_id
  | ExecCBAM module_id
  | ExecMaxPool nat
  | ExecUpsample nat
  | ExecCat

text \<open>A computation returns the events it produced and an error or a result.\<close>

type_synonym 'a comp = "event list \<times> (error + 'a)"

definition ok :: "'a \<Rightarrow> 'a comp" where
  "ok a = ([], Inr a)"

definition raise :: "error \<Rightarrow> 'a comp" where
  "raise e = ([], Inl e)"

definition emit :: "event \<Rightarrow> unit comp" where
  "emit ev = ([ev], Inr ())"

definition cbind :: "'a comp \<Rightarrow> ('a \<Rightarrow> 'b comp) \<Rightarrow> 'b comp" where
  "cbind m f =
     (case m of
        (l, Inl e) \<Rightarrow> (l, Inl e)
      | (l, Inr a) \<Rightarrow> (case f a of (l', r) \<Rightarrow> (l @ l', r)))"

definition py_assert :: "bool \<Rightarrow> assert_msg \<Rightarrow> unit comp" where
  "py_assert c msg = (if c then ok () else raise (AssertionError msg))"

text \<open>Indexing a tuple, a list or an \<^verbatim>\<open>nn.ModuleList\<close> with a non-negative index.\<close>

definition index :: "'a list \<Rightarrow> nat \<Rightarrow> 'a comp" where
  "index xs i = (if i < length xs then ok (xs ! i) else raise IndexError)"

fun mapM :: "('a \<Rightarrow> 'b comp) \<Rightarrow> 'a list \<Rightarrow> 'b list comp" where
  "mapM f [] = ok []"
| "mapM f (x # xs) = cbind (f x) (\<lambda>y. cbind (mapM f xs) (\<lambda>ys. ok (y # ys)))"

section \<open>Layers\<close>

text \<open>
  \<^verbatim>\<open>norm_cfg\<close> selects the normalization layer of every \<^verbatim>\<open>ConvModule\<close> by its type
  tag; \<^verbatim>\<open>conv_cfg\<close> and \<^verbatim>\<open>act_cfg\<close> are kept as their type tags.
\<close>

datatype norm_layer = BN | SyncBN | GN | LN

record conv_module =
  cm_in_channels :: nat
  cm_out_channels :: nat
  cm_kernel_size :: nat
  cm_stride :: int
  cm_dilation :: int
  cm_padding :: int
  cm_conv_cfg :: "string option"
  cm_norm_cfg :: "norm_layer option"
  cm_act_cfg :: "string option"

definition ConvModule_init ::
  "nat \<Rightarrow> nat \<Rightarrow> nat \<Rightarrow> int \<Rightarrow> int \<Rightarrow> int \<Rightarrow> string option \<Rightarrow> norm_layer option \<Rightarrow>
   string option \<Rightarrow> conv_module" where
  "ConvModule_init inc outc k s d p ccfg ncfg acfg =
     \<lparr>cm_in_channels = inc, cm_out_channels = outc, cm_kernel_size = k, cm_stride = s,
      cm_dilation = d, cm_padding = p, cm_conv_cfg = ccfg, cm_norm_cfg = ncfg,
      cm_act_cfg = acfg\<rparr>"

record basic_conv_block =
  bcb_with_cp :: bool
  bcb_convs :: "conv_module list"

text \<open>
  \<^verbatim>\<open>BasicConvBlock.__init__\<close>: the two assertions, then one \<^verbatim>\<open>ConvModule\<close> for each
  \<^verbatim>\<open>i\<close> of \<^verbatim>\<open>range(num_convs)\<close>.
\<close>

definition BasicConvBlock_init ::
  "nat \<Rightarrow> nat \<Rightarrow> int \<Rightarrow> int \<Rightarrow> int \<Rightarrow> bool \<Rightarrow> string option \<Rightarrow> norm_layer option \<Rightarrow>
   string option \<Rightarrow> bool option \<Rightarrow> pydict option \<Rightarrow> basic_conv_block comp" where
  "BasicConvBlock_init inc outc num_convs stride dilation wcp ccfg ncfg acfg dcn_arg plugins_arg =
     cbind (py_assert (dcn_arg = None) NotImplementedYet) (\<lambda>_.
     cbind (py_assert (plugins_arg = None) NotImplementedYet) (\<lambda>_.
     ok \<lparr>bcb_with_cp = wcp,
         bcb_convs =
           map (\<lambda>i. ConvModule_init
                      (if i = 0 then inc else outc)
                      outc
                      3
                      (if i = 0 then stride else 1)
                      (if i = 0 then 1 else dilation)
                      (if i = 0 then 1 else dilation)
                      ccfg ncfg acfg)
               [0..<nat num_convs]\<rparr>))"

text \<open>
  Modelled from the spec: \<^verbatim>\<open>CBAMBlock\<close> (imported from \<^verbatim>\<open>mmseg.models.utils\<close>) is
  not among the sources. The spec describes it as a channel-and-spatial attention gate
  that scales the features of its input; it is built for one channel width.
\<close>

record cbam_block =
  cbam_channels :: nat

definition CBAMBlock_init :: "nat \<Rightarrow> cbam_block" where
  "CBAMBlock_init c = \<lparr>cbam_channels = c\<rparr>"

record max_pool =
  mp_kernel_size :: nat
  mp_stride :: nat
  mp_ceil_mode :: bool

record upsample =
  us_scale_factor :: nat
  us_mode :: string
  us_align_corners :: bool

section \<open>Construction of the backbone\<close>

record config =
  in_channels :: nat
  base_channels :: nat
  num_stages :: int
  strides :: "int list"
  enc_num_convs :: "int list"
  dec_num_convs :: "int list"
  downsamples :: "bool list"
  enc_dilations :: "int list"
  dec_dilations :: "int list"
  with_cp :: bool
  conv_cfg :: "string option"
  norm_cfg :: "norm_layer option"
  act_cfg :: "string option"
  upsample_cfg :: string
  norm_eval :: bool
  dcn :: "bool option"
  plugins :: "pydict option"
  pretrained :: pretrained_t
  init_cfg :: init_cfg_t

text \<open>The attributes \<^verbatim>\<open>self.\<close>\<open>\<dots>\<close> that \<^verbatim>\<open>__init__\<close> sets.\<close>

record amdnet =
  self_pretrained :: pretrained_t
  self_init_cfg :: init_cfg_t
  self_num_stages :: int
  self_strides :: "int list"
  self_downsamples :: "bool list"
  self_norm_eval :: bool
  self_base_channels :: nat
  pool_16 :: max_pool
  pool_8 :: max_pool
  pool_4 :: max_pool
  pool_2 :: max_pool
  up_2 :: upsample
  up_4 :: upsample
  up_8 :: upsample
  up_16 :: upsample
  effu_cbam :: "cbam_block list"
  effu_c1 :: "conv_module list list"
  effu_c2 :: "basic_conv_block list list"
  decoder :: "basic_conv_block list"

definition default_init_cfg :: init_cfg_t where
  "default_init_cfg =
     InitList [[(''type'', VStr ''Kaiming''), (''layer'', VStr ''Conv2d'')],
               [(''type'', VStr ''Constant''), (''val'', VInt 1),
                (''layer'', VList [VStr ''_BatchNorm'', VStr ''GroupNorm''])]]"

definition deprecation_warning :: string where
  "deprecation_warning =
     ''DeprecationWarning: pretrained is a deprecated, please use init_cfg instead''"

text \<open>
  Lines 175 to 192: the assertion on \<^verbatim>\<open>init_cfg and pretrained\<close> (a test of truth
  values), then the three-way branch on the type of \<^verbatim>\<open>pretrained\<close>. The result is the
  value of \<^verbatim>\<open>self.init_cfg\<close>, which \<^verbatim>\<open>BaseModule.__init__\<close> has set to \<^verbatim>\<open>init_cfg\<close>.
\<close>

definition init_pretrained :: "pretrained_t \<Rightarrow> init_cfg_t \<Rightarrow> init_cfg_t comp" where
  "init_pretrained p ic =
     cbind (py_assert (\<not> (truthy_init ic \<and> truthy_pretrained p)) InitCfgAndPretrained) (\<lambda>_.
       (case p of
          PretrainedStr s \<Rightarrow>
            cbind (emit (Warn deprecation_warning)) (\<lambda>_.
              ok (InitDict [(''type'', VStr ''Pretrained''), (''checkpoint'', VStr s)]))
        | PretrainedNone \<Rightarrow> (if ic = InitNone then ok default_init_cfg else ok ic)
        | PretrainedOther b \<Rightarrow> raise (TypeError ''pretrained must be a str or None'')))"

text \<open>Lines 194 to 225: the eight assertions, in the order of the source.\<close>

definition check_lengths :: "config \<Rightarrow> unit comp" where
  "check_lengths cfg =
     cbind (py_assert (dcn cfg = None) NotImplementedYet) (\<lambda>_.
     cbind (py_assert (plugins cfg = None) NotImplementedYet) (\<lambda>_.
     cbind (py_assert (int (length (strides cfg)) = num_stages cfg)
              (LengthMismatch ''strides'' EqNumStages (IntSeq (strides cfg))
                 (length (strides cfg)) (num_stages cfg))) (\<lambda>_.
     cbind (py_assert (int (length (enc_num_convs cfg)) = num_stages cfg)
              (LengthMismatch ''enc_num_convs'' EqNumStages (IntSeq (enc_num_convs cfg))
                 (length (enc_num_convs cfg)) (num_stages cfg))) (\<lambda>_.
     cbind (py_assert (int (length (dec_num_convs cfg)) = num_stages cfg - 1)
              (LengthMismatch ''dec_num_convs'' EqNumStagesMinus1 (IntSeq (dec_num_convs cfg))
                 (length (dec_num_convs cfg)) (num_stages cfg))) (\<lambda>_.
     cbind (py_assert (int (length (downsamples cfg)) = num_stages cfg - 1)
              (LengthMismatch ''downsamples'' EqNumStagesMinus1 (BoolSeq (downsamples cfg))
                 (length (downsamples cfg)) (num_stages cfg))) (\<lambda>_.
     cbind (py_assert (int (length (enc_dilations cfg)) = num_stages cfg)
              (LengthMismatch ''enc_dilations'' EqNumStages (IntSeq (enc_dilations cfg))
                 (length (enc_dilations cfg)) (num_stages cfg))) (\<lambda>_.
     py_assert (int (length (dec_dilations cfg)) = num_stages cfg - 1)
              (LengthMismatch ''dec_dilations'' EqNumStagesMinus1 (IntSeq (dec_dilations cfg))
                 (length (dec_dilations cfg)) (num_stages cfg)))))))))"

text \<open>Lines 244 to 248: \<^verbatim>\<open>enc_channels[i] = base_channels * 2**i\<close>.\<close>

definition enc_channels_of :: "config \<Rightarrow> nat list" where
  "enc_channels_of cfg = map (\<lambda>i. base_channels cfg * 2 ^ i) [0..<nat (num_stages cfg)]"

text \<open>Lines 251 to 253.\<close>

definition build_effu_cbam :: "config \<Rightarrow> nat list \<Rightarrow> cbam_block list comp" where
  "build_effu_cbam cfg enc_channels =
     mapM (\<lambda>i. ok (CBAMBlock_init (sum_list (take i enc_channels))))
          [1..<nat (num_stages cfg)]"

text \<open>Lines 255 to 268: one \<^verbatim>\<open>nn.Sequential\<close> holding one 1x1 \<^verbatim>\<open>ConvModule\<close> per level.\<close>

definition build_effu_c1 :: "config \<Rightarrow> nat list \<Rightarrow> conv_module list list comp" where
  "build_effu_c1 cfg enc_channels =
     mapM (\<lambda>i. cbind (index enc_channels (i - 1)) (\<lambda>outc.
                 ok [ConvModule_init (sum_list (take i enc_channels)) outc 1 1 1 0
                       (conv_cfg cfg) (norm_cfg cfg) (act_cfg cfg)]))
          [1..<nat (num_stages cfg)]"

text \<open>
  Lines 271 to 288: the loop reassigns the variable \<^verbatim>\<open>in_channels\<close> at the end of each
  iteration, so it is threaded through the recursion.
\<close>

fun effu_c2_loop :: "config \<Rightarrow> nat \<Rightarrow> nat list \<Rightarrow> basic_conv_block list list comp" where
  "effu_c2_loop cfg inc [] = ok []"
| "effu_c2_loop cfg inc (i # rest) =
     cbind (index (enc_num_convs cfg) i) (\<lambda>nc.
     cbind (index (strides cfg) i) (\<lambda>st.
     cbind (index (enc_dilations cfg) i) (\<lambda>dl.
     cbind (BasicConvBlock_init inc (base_channels cfg * 2 ^ i) nc st dl (with_cp cfg)
              (conv_cfg cfg) (norm_cfg cfg) (act_cfg cfg) None None) (\<lambda>blk.
     cbind (effu_c2_loop cfg (base_channels cfg * 2 ^ i) rest) (\<lambda>blks.
     ok ([blk] # blks))))))"

definition build_effu_c2 :: "config \<Rightarrow> basic_conv_block list list comp" where
  "build_effu_c2 cfg = effu_c2_loop cfg (in_channels cfg) [0..<nat (num_stages cfg)]"

text \<open>Lines 290 to 304.\<close>

definition build_decoder :: "config \<Rightarrow> nat list \<Rightarrow> basic_conv_block list comp" where
  "build_decoder cfg enc_channels =
     mapM (\<lambda>i. cbind (index enc_channels i) (\<lambda>c0.
               cbind (index enc_channels (i + 1)) (\<lambda>c1.
               cbind (index enc_channels i) (\<lambda>outc.
               BasicConvBlock_init (c0 + c1) outc 2 1 1 (with_cp cfg)
                 (conv_cfg cfg) (norm_cfg cfg) (act_cfg cfg) None None))))
          [0..<nat (num_stages cfg - 1)]"

definition MaxPool2d :: "nat \<Rightarrow> nat \<Rightarrow> bool \<Rightarrow> max_pool" where
  "MaxPool2d k s c = \<lparr>mp_kernel_size = k, mp_stride = s, mp_ceil_mode = c\<rparr>"

definition Upsample :: "nat \<Rightarrow> string \<Rightarrow> bool \<Rightarrow> upsample" where
  "Upsample f m a = \<lparr>us_scale_factor = f, us_mode = m, us_align_corners = a\<rparr>"

text \<open>\<^verbatim>\<open>AMDNet_EFFU.__init__\<close>.\<close>

definition AMDNet_EFFU_init :: "config \<Rightarrow> amdnet comp" where
  "AMDNet_EFFU_init cfg =
     cbind (init_pretrained (pretrained cfg) (init_cfg cfg)) (\<lambda>icfg.
     cbind (check_lengths cfg) (\<lambda>_.
     cbind (build_effu_cbam cfg (enc_channels_of cfg)) (\<lambda>cbams.
     cbind (build_effu_c1 cfg (enc_channels_of cfg)) (\<lambda>c1s.
     cbind (build_effu_c2 cfg) (\<lambda>c2s.
     cbind (build_decoder cfg (enc_channels_of cfg)) (\<lambda>decs.
     ok \<lparr>self_pretrained = pretrained cfg,
         self_init_cfg = icfg,
         self_num_stages = num_stages cfg,
         self_strides = strides cfg,
         self_downsamples = downsamples cfg,
         self_norm_eval = norm_eval cfg,
         self_base_channels = base_channels cfg,
         pool_16 = MaxPool2d 16 16 True,
         pool_8 = MaxPool2d 8 8 True,
         pool_4 = MaxPool2d 4 4 True,
         pool_2 = MaxPool2d 2 2 True,
         up_2 = Upsample 2 ''bilinear'' True,
         up_4 = Upsample 4 ''bilinear'' True,
         up_8 = Upsample 8 ''bilinear'' True,
         up_16 = Upsample 16 ''bilinear'' True,
         effu_cbam = cbams,
         effu_c1 = c1s,
         effu_c2 = c2s,
         decoder = decs\<rparr>))))))"

text \<open>The default arguments of \<^verbatim>\<open>AMDNet_EFFU.__init__\<close>.\<close>

definition default_config :: config where
  "default_config =
     \<lparr>in_channels = 3, base_channels = 64, num_stages = 5,
      strides = [1, 1, 1, 1, 1],
      enc_num_convs = [2, 2, 2, 2, 2],
      dec_num_convs = [2, 2, 2, 2],
      downsamples = [True, True, True, True],
      enc_dilations = [1, 1, 1, 1, 1],
      dec_dilations = [1, 1, 1, 1],
      with_cp = False,
      conv_cfg = None,
      norm_cfg = Some BN,
      act_cfg = Some ''ReLU'',
      upsample_cfg = ''InterpConv'',
      norm_eval = False,
      dcn = None,
      plugins = None,
      pretrained = PretrainedNone,
      init_cfg = InitNone\<rparr>"

section \<open>Tensors and the layers of the framework\<close>

text \<open>
  A tensor is its shape \<^verbatim>\<open>(B, C, H, W)\<close> and the graph of layer applications that
  produced it from the input; the numbers in it are not modelled. A learned layer
  appears in the graph with its place in the model, which stands for its parameters.
\<close>

datatype texpr =
    Input
  | ConvE module_id conv_module texpr
  | CBAME module_id cbam_block texpr
  | MaxPoolE max_pool texpr
  | UpsampleE upsample texpr
  | CatE "texpr list"

record tensor =
  batch :: nat
  channels :: nat
  height :: nat
  width :: nat
  graph :: texpr

text \<open>
  The layers of the framework are not part of the module. Each is modelled by the
  output shape its documentation gives, and fails with a \<^verbatim>\<open>RuntimeError\<close> where the
  framework rejects the shapes: a convolution applied to the wrong number of channels
  (or with a stride, dilation or padding it does not accept), a concatenation of
  tensors that differ outside the channel dimension.
\<close>

definition conv_out_size :: "nat \<Rightarrow> conv_module \<Rightarrow> nat" where
  "conv_out_size h cm =
     nat ((int h + 2 * cm_padding cm - cm_dilation cm * (int (cm_kernel_size cm) - 1) - 1)
            div cm_stride cm + 1)"

definition ConvModule_forward :: "module_id \<Rightarrow> conv_module \<Rightarrow> tensor \<Rightarrow> tensor comp" where
  "ConvModule_forward mid cm x =
     (if channels x \<noteq> cm_in_channels cm \<or> cm_stride cm \<le> 0 \<or> cm_dilation cm \<le> 0
         \<or> cm_padding cm < 0
      then raise RuntimeError
      else cbind (emit (ExecConv mid)) (\<lambda>_.
             ok \<lparr>batch = batch x, channels = cm_out_channels cm,
                 height = conv_out_size (height x) cm,
                 width = conv_out_size (width x) cm,
                 graph = ConvE mid cm (graph x)\<rparr>))"

text \<open>
  Modelled from the spec: the forward pass of \<^verbatim>\<open>CBAMBlock\<close>, whose source is missing,
  scales its input and keeps its shape; it expects the channel width it was built for.
\<close>

definition CBAMBlock_forward :: "module_id \<Rightarrow> cbam_block \<Rightarrow> tensor \<Rightarrow> tensor comp" where
  "CBAMBlock_forward mid cb x =
     (if channels x \<noteq> cbam_channels cb then raise RuntimeError
      else cbind (emit (ExecCBAM mid)) (\<lambda>_. ok (x\<lparr>graph := CBAME mid cb (graph x)\<rparr>)))"

definition pool_out_size :: "nat \<Rightarrow> max_pool \<Rightarrow> nat" where
  "pool_out_size h mp =
     (if mp_ceil_mode mp
      then (let out = nat (1 - ((int (mp_kernel_size mp) - int h) div int (mp_stride mp)))
            in if 0 < out \<and> h \<le> (out - 1) * mp_stride mp then out - 1 else out)
      else nat ((int h - int (mp_kernel_size mp)) div int (mp_stride mp) + 1))"

definition MaxPool2d_forward :: "max_pool \<Rightarrow> tensor \<Rightarrow> tensor comp" where
  "MaxPool2d_forward mp x =
     (if mp_stride mp = 0 \<or> mp_kernel_size mp = 0 then raise RuntimeError
      else cbind (emit (ExecMaxPool (mp_kernel_size mp))) (\<lambda>_.
             ok (x\<lparr>height := pool_out_size (height x) mp,
                   width := pool_out_size (width x) mp,
                   graph := MaxPoolE mp (graph x)\<rparr>)))"

definition Upsample_forward :: "upsample \<Rightarrow> tensor \<Rightarrow> tensor comp" where
  "Upsample_forward us x =
     cbind (emit (ExecUpsample (us_scale_factor us))) (\<lambda>_.
       ok (x\<lparr>height := height x * us_scale_factor us,
             width := width x * us_scale_factor us,
             graph := UpsampleE us (graph x)\<rparr>))"

text \<open>\<^verbatim>\<open>torch.cat(ts, dim=1)\<close>.\<close>

definition torch_cat :: "tensor list \<Rightarrow> tensor comp" where
  "torch_cat ts =
     (case ts of
        [] \<Rightarrow> raise RuntimeError
      | t # rest \<Rightarrow>
          if list_all (\<lambda>u. batch u = batch t \<and> height u = height t \<and> width u = width t) rest
          then cbind (emit ExecCat) (\<lambda>_.
                 ok \<lparr>batch = batch t, channels = sum_list (map channels ts),
                     height = height t, width = width t,
                     graph = CatE (map graph ts)\<rparr>)
          else raise RuntimeError)"

text \<open>\<^verbatim>\<open>nn.Sequential\<close>: the entries in order, each told its position.\<close>

fun Sequential_forward ::
  "(nat \<Rightarrow> 'm \<Rightarrow> tensor \<Rightarrow> tensor comp) \<Rightarrow> nat \<Rightarrow> 'm list \<Rightarrow> tensor \<Rightarrow> tensor comp" where
  "Sequential_forward f k [] x = ok x"
| "Sequential_forward f k (m # ms) x = cbind (f k m x) (Sequential_forward f (Suc k) ms)"

text \<open>
  \<^verbatim>\<open>BasicConvBlock.forward\<close>. Both branches of the test on \<^verbatim>\<open>with_cp\<close> evaluate
  \<^verbatim>\<open>self.convs\<close> on \<^verbatim>\<open>x\<close>: \<^verbatim>\<open>cp.checkpoint\<close> changes what the backward pass keeps
  in memory, not the value.
\<close>

definition BasicConvBlock_forward ::
  "(nat \<Rightarrow> module_id) \<Rightarrow> basic_conv_block \<Rightarrow> tensor \<Rightarrow> tensor comp" where
  "BasicConvBlock_forward mid blk x =
     (if bcb_with_cp blk
      then Sequential_forward (\<lambda>j. ConvModule_forward (mid j)) 0 (bcb_convs blk) x
      else Sequential_forward (\<lambda>j. ConvModule_forward (mid j)) 0 (bcb_convs blk) x)"

definition effu_c2_forward :: "nat \<Rightarrow> basic_conv_block list \<Rightarrow> tensor \<Rightarrow> tensor comp" where
  "effu_c2_forward i sq x =
     Sequential_forward (\<lambda>p. BasicConvBlock_forward (Effu_c2 i p)) 0 sq x"

definition effu_c1_forward :: "nat \<Rightarrow> conv_module list \<Rightarrow> tensor \<Rightarrow> tensor comp" where
  "effu_c1_forward i sq x =
     Sequential_forward (\<lambda>p. ConvModule_forward (Effu_c1 i p)) 0 sq x"

section \<open>The forward pass\<close>

text \<open>
  \<^verbatim>\<open>_check_input_divisible\<close>: the loop over \<^verbatim>\<open>range(1, self.num_stages)\<close> with the
  rate as accumulator; \<^verbatim>\<open>or\<close> does not read \<^verbatim>\<open>downsamples\<close> when the stride is 2.
\<close>

fun rate_loop :: "amdnet \<Rightarrow> nat \<Rightarrow> nat list \<Rightarrow> nat comp" where
  "rate_loop m r [] = ok r"
| "rate_loop m r (i # rest) =
     cbind (index (self_strides m) i) (\<lambda>s.
       if s = 2 then rate_loop m (r * 2) rest
       else cbind (index (self_downsamples m) (i - 1)) (\<lambda>d.
              if d then rate_loop m (r * 2) rest else rate_loop m r rest))"

definition check_input_divisible :: "amdnet \<Rightarrow> tensor \<Rightarrow> unit comp" where
  "check_input_divisible m x =
     cbind (rate_loop m 1 [1..<nat (self_num_stages m)]) (\<lambda>rate.
       py_assert (height x mod rate = 0 \<and> width x mod rate = 0)
         (NotDivisible (height x) (width x) rate (self_num_stages m) (self_strides m)
            (self_downsamples m)))"

text \<open>
  The statements of \<^verbatim>\<open>forward\<close>, one definition for each assignment. Python evaluates
  the callee of a call before its arguments, so in each nested call the module-list
  entries are read from the outside in, before the innermost layer runs.
\<close>

definition forward_x0 :: "amdnet \<Rightarrow> tensor \<Rightarrow> tensor comp" where
  "forward_x0 m x =
     cbind (index (effu_c2 m) 0) (\<lambda>c2.
     effu_c2_forward 0 c2 x)"

definition forward_x1 :: "amdnet \<Rightarrow> tensor \<Rightarrow> tensor comp" where
  "forward_x1 m x0 =
     cbind (index (effu_c2 m) 1) (\<lambda>c2.
     cbind (index (effu_c1 m) 0) (\<lambda>c1.
     cbind (index (effu_cbam m) 0) (\<lambda>cb.
     cbind (MaxPool2d_forward (pool_2 m) x0) (\<lambda>p0.
     cbind (CBAMBlock_forward (Effu_cbam 0) cb p0) (\<lambda>a.
     cbind (effu_c1_forward 0 c1 a) (\<lambda>b.
     effu_c2_forward 1 c2 b))))))"

definition forward_x2 :: "amdnet \<Rightarrow> tensor \<Rightarrow> tensor \<Rightarrow> tensor comp" where
  "forward_x2 m x0 x1 =
     cbind (index (effu_c2 m) 2) (\<lambda>c2.
     cbind (index (effu_c1 m) 1) (\<lambda>c1.
     cbind (index (effu_cbam m) 1) (\<lambda>cb.
     cbind (MaxPool2d_forward (pool_4 m) x0) (\<lambda>p0.
     cbind (MaxPool2d_forward (pool_2 m) x1) (\<lambda>p1.
     cbind (torch_cat [p0, p1]) (\<lambda>c.
     cbind (CBAMBlock_forward (Effu_cbam 1) cb c) (\<lambda>a.
     cbind (effu_c1_forward 1 c1 a) (\<lambda>b.
     effu_c2_forward 2 c2 b))))))))"

definition forward_x3 :: "amdnet \<Rightarrow> tensor \<Rightarrow> tensor \<Rightarrow> tensor \<Rightarrow> tensor comp" where
  "forward_x3 m x0 x1 x2 =
     cbind (index (effu_c2 m) 3) (\<lambda>c2.
     cbind (index (effu_c1 m) 2) (\<lambda>c1.
     cbind (index (effu_cbam m) 2) (\<lambda>cb.
     cbind (MaxPool2d_forward (pool_8 m) x0) (\<lambda>p0.
     cbind (MaxPool2d_forward (pool_4 m) x1) (\<lambda>p1.
     cbind (MaxPool2d_forward (pool_2 m) x2) (\<lambda>p2.
     cbind (torch_cat [p0, p1, p2]) (\<lambda>c.
     cbind (CBAMBlock_forward (Effu_cbam 2) cb c) (\<lambda>a.
     cbind (effu_c1_forward 2 c1 a) (\<lambda>b.
     effu_c2_forward 3 c2 b)))))))))"

definition forward_x4 ::
  "amdnet \<Rightarrow> tensor \<Rightarrow> tensor \<Rightarrow> tensor \<Rightarrow> tensor \<Rightarrow> tensor comp" where
  "forward_x4 m x0 x1 x2 x3 =
     cbind (index (effu_c2 m) 4) (\<lambda>c2.
     cbind (index (effu_c1 m) 3) (\<lambda>c1.
     cbind (index (effu_cbam m) 3) (\<lambda>cb.
     cbind (MaxPool2d_forward (pool_16 m) x0) (\<lambda>p0.
     cbind (MaxPool2d_forward (pool_8 m) x1) (\<lambda>p1.
     cbind (MaxPool2d_forward (pool_4 m) x2) (\<lambda>p2.
     cbind (MaxPool2d_forward (pool_2 m) x3) (\<lambda>p3.
     cbind (torch_cat [p0, p1, p2, p3]) (\<lambda>c.
     cbind (CBAMBlock_forward (Effu_cbam 3) cb c) (\<lambda>a.
     cbind (effu_c1_forward 3 c1 a) (\<lambda>b.
     effu_c2_forward 4 c2 b))))))))))"

text \<open>
  \<^verbatim>\<open>dec\<close>\<open>i\<close>\<^verbatim>\<open> = self.decoder[\<close>\<open>i\<close>\<^verbatim>\<open>](torch.cat([x\<close>\<open>i\<close>\<^verbatim>\<open>, self.up_2(below)], dim=1))\<close>,
  written four times in the source with \<open>i\<close> = 3, 2, 1, 0.
\<close>

definition forward_dec :: "amdnet \<Rightarrow> nat \<Rightarrow> tensor \<Rightarrow> tensor \<Rightarrow> tensor comp" where
  "forward_dec m i xi below =
     cbind (index (decoder m) i) (\<lambda>blk.
     cbind (Upsample_forward (up_2 m) below) (\<lambda>u.
     cbind (torch_cat [xi, u]) (\<lambda>c.
     BasicConvBlock_forward (Decoder i) blk c)))"

definition forward :: "amdnet \<Rightarrow> tensor \<Rightarrow> tensor list comp" where
  "forward m x =
     cbind (check_input_divisible m x) (\<lambda>_.
     cbind (forward_x0 m x) (\<lambda>x0.
     cbind (forward_x1 m x0) (\<lambda>x1.
     cbind (forward_x2 m x0 x1) (\<lambda>x2.
     cbind (forward_x3 m x0 x1 x2) (\<lambda>x3.
     cbind (forward_x4 m x0 x1 x2 x3) (\<lambda>x4.
     cbind (forward_dec m 3 x3 x4) (\<lambda>dec3.
     cbind (forward_dec m 2 x2 dec3) (\<lambda>dec2.
     cbind (forward_dec m 1 x1 dec2) (\<lambda>dec1.
     cbind (forward_dec m 0 x0 dec1) (\<lambda>dec0.
     ok [x4, dec3, dec2, dec1, dec0]))))))))))"

section \<open>The module tree and the mode switch\<close>

text \<open>
  \<^verbatim>\<open>train\<close> works on the tree of sub-modules that \<^verbatim>\<open>nn.Module\<close> keeps: every module
  has a class, the flag \<^verbatim>\<open>training\<close>, its own parameters and buffers (weights,
  \<^verbatim>\<open>requires_grad\<close> flags, running statistics; kept abstract as \<open>'a\<close>) and its children
  in the order they were registered.
\<close>

datatype module_kind =
    K_AMDNet_EFFU
  | K_ModuleList
  | K_Sequential
  | K_BasicConvBlock
  | K_ConvModule
  | K_Conv2d
  | K_Norm norm_layer
  | K_Activation string
  | K_CBAMBlock
  | K_MaxPool2d
  | K_Upsample
  | K_Other string

datatype 'a pymodule =
  Module (kind: module_kind) (training: bool) (params: 'a) (children: "'a pymodule list")

text \<open>
  \<^verbatim>\<open>isinstance(m, _BatchNorm)\<close>: the batch normalization layers and their synchronized
  variant are subclasses of \<^verbatim>\<open>_BatchNorm\<close>; group and layer normalization are not.
\<close>

fun is_BatchNorm :: "module_kind \<Rightarrow> bool" where
  "is_BatchNorm (K_Norm BN) = True"
| "is_BatchNorm (K_Norm SyncBN) = True"
| "is_BatchNorm k = False"

fun is_norm :: "module_kind \<Rightarrow> bool" where
  "is_norm (K_Norm n) = True"
| "is_norm k = False"

text \<open>\<^verbatim>\<open>nn.Module.train(mode)\<close> sets the flag of the module and of all its descendants.\<close>

fun Module_train :: "bool \<Rightarrow> 'a pymodule \<Rightarrow> 'a pymodule" where
  "Module_train mode (Module k t s cs) = Module k mode s (map (Module_train mode) cs)"

text \<open>\<^verbatim>\<open>nn.Module.modules()\<close> yields the module, then the modules of each child.\<close>

fun modules :: "'a pymodule \<Rightarrow> 'a pymodule list" where
  "modules (Module k t s cs) = Module k t s cs # concat (map modules cs)"

text \<open>
  The loop of \<^verbatim>\<open>train\<close> over \<^verbatim>\<open>self.modules()\<close>: a module that is a \<^verbatim>\<open>_BatchNorm\<close> gets
  \<^verbatim>\<open>eval()\<close>, that is \<^verbatim>\<open>train(False)\<close>, and the walk goes on into its children as
  that call left them.
\<close>

function eval_batchnorms :: "'a pymodule \<Rightarrow> 'a pymodule" where
  "eval_batchnorms (Module k t s cs) =
     (if is_BatchNorm k
      then Module k False s (map (\<lambda>c. eval_batchnorms (Module_train False c)) cs)
      else Module k t s (map eval_batchnorms cs))"
  by pat_completeness auto
termination
proof (relation "measure size")
  show "wf (measure size)" by simp
next
  fix k :: module_kind and t :: bool and s :: 'a and cs :: "'a pymodule list" and c
  assume c: "c \<in> set cs"
  have same: "size (Module_train False m) = size m" for m :: "'a pymodule"
  proof (induction m)
    case (Module k' t' s' cs')
    then show ?case
      by (simp add: size_list_conv_sum_list o_def cong: map_cong)
  qed
  from c have "size c < Suc (size_list size cs)"
    by (induction cs) auto
  then show "(Module_train False c, Module k t s cs) \<in> measure size"
    by (simp add: same)
next
  fix k :: module_kind and t :: bool and s :: 'a and cs :: "'a pymodule list" and c
  assume "c \<in> set cs"
  then have "size c < Suc (size_list size cs)"
    by (induction cs) auto
  then show "(c, Module k t s cs) \<in> measure size"
    by simp
qed

text \<open>\<^verbatim>\<open>AMDNet_EFFU.train\<close>, on the module tree of the model \<^verbatim>\<open>self\<close>.\<close>

definition train :: "amdnet \<Rightarrow> bool \<Rightarrow> 'a pymodule \<Rightarrow> 'a pymodule" where
  "train self mode root =
     (let root' = Module_train mode root
      in if mode \<and> self_norm_eval self then eval_batchnorms root' else root')"

text \<open>
  The framework's batch normalization: a forward pass in training mode replaces the
  running statistics of a \<^verbatim>\<open>_BatchNorm\<close> layer (by \<open>upd\<close>); in evaluation mode it leaves
  them.
\<close>

fun forward_stats :: "('a \<Rightarrow> 'a) \<Rightarrow> 'a pymodule \<Rightarrow> 'a pymodule" where
  "forward_stats upd (Module k t s cs) =
     Module k t (if is_BatchNorm k \<and> t then upd s else s) (map (forward_stats upd) cs)"

text \<open>
  The tree that \<^verbatim>\<open>__init__\<close> registers, every module in training mode as the framework
  creates it. A \<^verbatim>\<open>ConvModule\<close> holds its convolution, its normalization layer when
  \<^verbatim>\<open>norm_cfg\<close> is given and its activation when \<^verbatim>\<open>act_cfg\<close> is given; the sub-modules of
  a \<^verbatim>\<open>CBAMBlock\<close> are a parameter.
\<close>

definition ConvModule_tree :: "'a \<Rightarrow> conv_module \<Rightarrow> 'a pymodule" where
  "ConvModule_tree p cm =
     Module K_ConvModule True p
       ([Module K_Conv2d True p []]
        @ (case cm_norm_cfg cm of None \<Rightarrow> [] | Some n \<Rightarrow> [Module (K_Norm n) True p []])
        @ (case cm_act_cfg cm of None \<Rightarrow> [] | Some a \<Rightarrow> [Module (K_Activation a) True p []]))"

definition BasicConvBlock_tree :: "'a \<Rightarrow> basic_conv_block \<Rightarrow> 'a pymodule" where
  "BasicConvBlock_tree p blk =
     Module K_BasicConvBlock True p
       [Module K_Sequential True p (map (ConvModule_tree p) (bcb_convs blk))]"

definition module_tree :: "(cbam_block \<Rightarrow> 'a pymodule list) \<Rightarrow> 'a \<Rightarrow> amdnet \<Rightarrow> 'a pymodule" where
  "module_tree cbam_children p m =
     Module K_AMDNet_EFFU True p
       [Module K_MaxPool2d True p [], Module K_MaxPool2d True p [],
        Module K_MaxPool2d True p [], Module K_MaxPool2d True p [],
        Module K_Upsample True p [], Module K_Upsample True p [],
        Module K_Upsample True p [], Module K_Upsample True p [],
        Module K_ModuleList True p
          (map (\<lambda>cb. Module K_CBAMBlock True p (cbam_children cb)) (effu_cbam m)),
        Module K_ModuleList True p
          (map (\<lambda>sq. Module K_Sequential True p (map (ConvModule_tree p) sq)) (effu_c1 m)),
        Module K_ModuleList True p
          (map (\<lambda>sq. Module K_Sequential True p (map (BasicConvBlock_tree p) sq)) (effu_c2 m)),
        Module K_ModuleList True p (map (BasicConvBlock_tree p) (decoder m))]"

section \<open>What the constructor builds, in closed form\<close>

text \<open>
  The loops of \<^verbatim>\<open>__init__\<close> written as maps over the stage indices. The lemmas below
  prove that a successful construction returns exactly this model, so that the
  properties of the layers can be read off it.
\<close>

definition encoder_in_channels :: "config \<Rightarrow> nat \<Rightarrow> nat" where
  "encoder_in_channels cfg i =
     (if i = 0 then in_channels cfg else base_channels cfg * 2 ^ (i - 1))"

definition encoder_block :: "config \<Rightarrow> nat \<Rightarrow> basic_conv_block" where
  "encoder_block cfg i =
     \<lparr>bcb_with_cp = with_cp cfg,
      bcb_convs =
        map (\<lambda>j. ConvModule_init
                   (if j = 0 then encoder_in_channels cfg i else base_channels cfg * 2 ^ i)
                   (base_channels cfg * 2 ^ i) 3
                   (if j = 0 then strides cfg ! i else 1)
                   (if j = 0 then 1 else enc_dilations cfg ! i)
                   (if j = 0 then 1 else enc_dilations cfg ! i)
                   (conv_cfg cfg) (norm_cfg cfg) (act_cfg cfg))
            [0..<nat (enc_num_convs cfg ! i)]\<rparr>"

definition decoder_block :: "config \<Rightarrow> nat \<Rightarrow> basic_conv_block" where
  "decoder_block cfg i =
     \<lparr>bcb_with_cp = with_cp cfg,
      bcb_convs =
        [ConvModule_init (base_channels cfg * 2 ^ i + base_channels cfg * 2 ^ (i + 1))
           (base_channels cfg * 2 ^ i) 3 1 1 1 (conv_cfg cfg) (norm_cfg cfg) (act_cfg cfg),
         ConvModule_init (base_channels cfg * 2 ^ i)
           (base_channels cfg * 2 ^ i) 3 1 1 1 (conv_cfg cfg) (norm_cfg cfg) (act_cfg cfg)]\<rparr>"

definition fusion_channels :: "config \<Rightarrow> nat \<Rightarrow> nat" where
  "fusion_channels cfg i = (\<Sum>j<i. base_channels cfg * 2 ^ j)"

definition fusion_conv :: "config \<Rightarrow> nat \<Rightarrow> conv_module" where
  "fusion_conv cfg i =
     ConvModule_init (fusion_channels cfg i) (base_channels cfg * 2 ^ (i - 1)) 1 1 1 0
       (conv_cfg cfg) (norm_cfg cfg) (act_cfg cfg)"

definition built_model :: "config \<Rightarrow> init_cfg_t \<Rightarrow> amdnet" where
  "built_model cfg icfg =
     \<lparr>self_pretrained = pretrained cfg,
      self_init_cfg = icfg,
      self_num_stages = num_stages cfg,
      self_strides = strides cfg,
      self_downsamples = downsamples cfg,
      self_norm_eval = norm_eval cfg,
      self_base_channels = base_channels cfg,
      pool_16 = MaxPool2d 16 16 True,
      pool_8 = MaxPool2d 8 8 True,
      pool_4 = MaxPool2d 4 4 True,
      pool_2 = MaxPool2d 2 2 True,
      up_2 = Upsample 2 ''bilinear'' True,
      up_4 = Upsample 4 ''bilinear'' True,
      up_8 = Upsample 8 ''bilinear'' True,
      up_16 = Upsample 16 ''bilinear'' True,
      effu_cbam = map (\<lambda>i. CBAMBlock_init (fusion_channels cfg i)) [1..<nat (num_stages cfg)],
      effu_c1 = map (\<lambda>i. [fusion_conv cfg i]) [1..<nat (num_stages cfg)],
      effu_c2 = map (\<lambda>i. [encoder_block cfg i]) [0..<nat (num_stages cfg)],
      decoder = map (decoder_block cfg) [0..<nat (num_stages cfg - 1)]\<rparr>"

text \<open>The six length constraints and the two unimplemented features.\<close>

definition lengths_ok :: "config \<Rightarrow> bool" where
  "lengths_ok cfg \<longleftrightarrow>
     int (length (strides cfg)) = num_stages cfg \<and>
     int (length (enc_num_convs cfg)) = num_stages cfg \<and>
     int (length (dec_num_convs cfg)) = num_stages cfg - 1 \<and>
     int (length (downsamples cfg)) = num_stages cfg - 1 \<and>
     int (length (enc_dilations cfg)) = num_stages cfg \<and>
     int (length (dec_dilations cfg)) = num_stages cfg - 1"

section \<open>The specification's formulations\<close>

text \<open>
  The cumulative downsampling factor in the words of the specification: the product
  of 2 over every stage index \<open>i \<ge> 1\<close> where the stride of that stage is 2 or the
  previous stage enabled pooling. It is compared below with the loop of
  \<^verbatim>\<open>_check_input_divisible\<close>.
\<close>

definition whole_downsample_rate_spec :: "int list \<Rightarrow> bool list \<Rightarrow> nat \<Rightarrow> nat" where
  "whole_downsample_rate_spec st ds n =
     prod_list (map (\<lambda>i. 2) (filter (\<lambda>i. st ! i = 2 \<or> ds ! (i - 1)) [1..<n]))"

text \<open>
  The fusion wiring in the words of the specification. The graph of a stack of
  convolutions applied in sequence; the encoder block of level \<open>i\<close> applied to a graph;
  the input of the fusion block of level \<open>i\<close>, the concatenation of the outputs of all
  levels \<open>j < i\<close>, each max-pooled in ceiling mode by the factor \<open>2 ^ (i - j)\<close> (the
  concatenation of a single tensor is that tensor); and a level \<open>i \<ge> 1\<close> as a whole:
  the concatenation \<open>c\<close> of the pooled earlier outputs \<open>es\<close> has channel width
  \<open>\<Sum>j<i. base_channels * 2 ^ j\<close>, passes through the attention gate and the 1x1
  convolution, and the encoder block of the level turns the result into \<open>e\<close>.
\<close>

fun conv_chain :: "(nat \<Rightarrow> module_id) \<Rightarrow> nat \<Rightarrow> conv_module list \<Rightarrow> texpr \<Rightarrow> texpr" where
  "conv_chain mid k [] g = g"
| "conv_chain mid k (cm # cms) g = conv_chain mid (Suc k) cms (ConvE (mid k) cm g)"

definition encoder_graph :: "config \<Rightarrow> nat \<Rightarrow> texpr \<Rightarrow> texpr" where
  "encoder_graph cfg i g = conv_chain (Effu_c2 i 0) 0 (bcb_convs (encoder_block cfg i)) g"

definition fusion_input_graph :: "nat \<Rightarrow> texpr list \<Rightarrow> texpr" where
  "fusion_input_graph i gs =
     (let ps = map (\<lambda>j. MaxPoolE (MaxPool2d (2 ^ (i - j)) (2 ^ (i - j)) True) (gs ! j)) [0..<i]
      in if length ps = 1 then hd ps else CatE ps)"

definition fusion_level :: "config \<Rightarrow> nat \<Rightarrow> tensor list \<Rightarrow> tensor \<Rightarrow> tensor \<Rightarrow> bool" where
  "fusion_level cfg i es c e \<longleftrightarrow>
     graph c = fusion_input_graph i (map graph es) \<and>
     channels c = fusion_channels cfg i \<and>
     graph e =
       encoder_graph cfg i
         (ConvE (Effu_c1 (i - 1) 0) (fusion_conv cfg i)
            (CBAME (Effu_cbam (i - 1)) (CBAMBlock_init (fusion_channels cfg i)) (graph c)))"

section \<open>Notions used to state the properties\<close>

definition has_shape :: "tensor \<Rightarrow> nat \<Rightarrow> nat \<Rightarrow> nat \<Rightarrow> nat \<Rightarrow> bool" where
  "has_shape t b c h w \<longleftrightarrow> batch t = b \<and> channels t = c \<and> height t = h \<and> width t = w"

text \<open>The learned layer whose output a tensor is, if it is the output of one.\<close>

fun producer :: "texpr \<Rightarrow> module_id option" where
  "producer (ConvE mid cm g) = Some mid"
| "producer (CBAME mid cb g) = Some mid"
| "producer g = None"

text \<open>
  The stage parameters of the default configuration: five stages, every stride 1,
  two convolutions per encoder block, every encoder dilation 1.
\<close>

definition default_stages :: "config \<Rightarrow> bool" where
  "default_stages cfg \<longleftrightarrow>
     num_stages cfg = 5 \<and> strides cfg = [1, 1, 1, 1, 1] \<and>
     enc_num_convs cfg = [2, 2, 2, 2, 2] \<and> enc_dilations cfg = [1, 1, 1, 1, 1]"

text \<open>
  A bound on a computation: every event it logs satisfies \<open>P\<close>, and if it fails, its
  error satisfies \<open>E\<close>.
\<close>

definition bounded_comp :: "(event \<Rightarrow> bool) \<Rightarrow> (error \<Rightarrow> bool) \<Rightarrow> 'a comp \<Rightarrow> bool" where
  "bounded_comp P E c \<longleftrightarrow>
     list_all P (fst c) \<and> (case snd c of Inl e \<Rightarrow> E e | Inr a \<Rightarrow> True)"

text \<open>
  A learned layer belongs to the first \<open>n\<close> stages: an encoder block of index below
  \<open>n\<close>, or a fusion block or decoder block of index below \<open>n - 1\<close>.
\<close>

fun layer_below :: "nat \<Rightarrow> module_id \<Rightarrow> bool" where
  "layer_below n (Effu_c2 i p j) = (i < n)"
| "layer_below n (Effu_c1 i p) = (i < n - 1)"
| "layer_below n (Effu_cbam i) = (i < n - 1)"
| "layer_below n (Decoder i j) = (i < n - 1)"

fun event_below :: "nat \<Rightarrow> event \<Rightarrow> bool" where
  "event_below n (ExecConv mid) = layer_below n mid"
| "event_below n (ExecCBAM mid) = layer_below n mid"
| "event_below n ev = True"

text \<open>The errors a forward pass can end with, other than the divisibility assertion.\<close>

fun layer_error :: "error \<Rightarrow> bool" where
  "layer_error IndexError = True"
| "layer_error RuntimeError = True"
| "layer_error e = False"

text \<open>
  Two configurations with a stage count other than five, with the default values of
  the per-stage parameters cut or extended to that count.
\<close>

definition four_stage_config :: config where
  "four_stage_config =
     default_config\<lparr>num_stages := 4, strides := [1, 1, 1, 1], enc_num_convs := [2, 2, 2, 2],
       dec_num_convs := [2, 2, 2], downsamples := [True, True, True],
       enc_dilations := [1, 1, 1, 1], dec_dilations := [1, 1, 1]\<rparr>"

definition six_stage_config :: config where
  "six_stage_config =
     default_config\<lparr>num_stages := 6, strides := [1, 1, 1, 1, 1, 1],
       enc_num_convs := [2, 2, 2, 2, 2, 2], dec_num_convs := [2, 2, 2, 2, 2],
       downsamples := [True, True, True, True, True],
       enc_dilations := [1, 1, 1, 1, 1, 1], dec_dilations := [1, 1, 1, 1, 1]\<rparr>"

text \<open>
  In the framework a \<^verbatim>\<open>_BatchNorm\<close> layer has no sub-modules: in a well-formed module
  tree every such layer is a leaf.
\<close>

fun bn_leaves :: "'a pymodule \<Rightarrow> bool" where
  "bn_leaves (Module k t s cs) \<longleftrightarrow> (is_BatchNorm k \<longrightarrow> cs = []) \<and> (\<forall>c \<in> set cs. bn_leaves c)"

section \<open>Properties\<close>

subsection \<open>Computations, indexing and the loops of the constructor\<close>

lemma cbind_ok [simp]: "cbind (ok a) f = f a"
  by (simp add: cbind_def ok_def split: prod.splits)

lemma cbind_raise [simp]: "cbind (raise e) f = raise e"
  by (simp add: cbind_def raise_def)

lemma cbind_Inr_iff:
  "cbind m f = (l, Inr b) \<longleftrightarrow>
     (\<exists>l1 a l2. m = (l1, Inr a) \<and> f a = (l2, Inr b) \<and> l = l1 @ l2)"
  by (auto simp: cbind_def split: prod.splits sum.splits)

lemma cbind_Pair_Inr: "cbind (l, Inr a) f = (l @ fst (f a), snd (f a))"
  by (simp add: cbind_def split: prod.splits)

lemma cbind_Pair_Inl [simp]: "cbind (l, Inl e) f = (l, Inl e)"
  by (simp add: cbind_def)

lemma ok_neq_raise [simp]: "ok a \<noteq> raise e" "raise e \<noteq> ok a"
  by (simp_all add: ok_def raise_def)

lemma ok_eq_iff [simp]: "ok a = (l, r) \<longleftrightarrow> l = [] \<and> r = Inr a" "ok a = ok b \<longleftrightarrow> a = b"
  by (auto simp: ok_def)

lemma raise_eq_iff [simp]: "raise e = (l, r) \<longleftrightarrow> l = [] \<and> r = Inl e"
  by (auto simp: raise_def)

lemma py_assert_True [simp]: "py_assert True msg = ok ()"
  by (simp add: py_assert_def)

lemma py_assert_False [simp]: "py_assert False msg = raise (AssertionError msg)"
  by (simp add: py_assert_def)

lemma py_assert_if: "cbind (py_assert c msg) f = (if c then f () else raise (AssertionError msg))"
  by simp

lemma index_in [simp]: "i < length xs \<Longrightarrow> index xs i = ok (xs ! i)"
  by (simp add: index_def)

lemma index_out [simp]: "length xs \<le> i \<Longrightarrow> index xs i = raise IndexError"
  by (simp add: index_def)

lemma mapM_ok: "(\<And>x. x \<in> set xs \<Longrightarrow> f x = ok (g x)) \<Longrightarrow> mapM f xs = ok (map g xs)"
  by (induction xs) simp_all

lemma BasicConvBlock_init_None:
  "BasicConvBlock_init inc outc n st dl wcp ccfg ncfg acfg None None =
     ok \<lparr>bcb_with_cp = wcp,
         bcb_convs = map (\<lambda>i. ConvModule_init (if i = 0 then inc else outc) outc 3
                                (if i = 0 then st else 1) (if i = 0 then 1 else dl)
                                (if i = 0 then 1 else dl) ccfg ncfg acfg) [0..<nat n]\<rparr>"
  by (simp add: BasicConvBlock_init_def)

lemma effu_c2_loop_closed:
  "n \<le> length (enc_num_convs cfg) \<Longrightarrow> n \<le> length (strides cfg) \<Longrightarrow>
   n \<le> length (enc_dilations cfg) \<Longrightarrow> inc = encoder_in_channels cfg k \<Longrightarrow>
   effu_c2_loop cfg inc [k..<n] = ok (map (\<lambda>i. [encoder_block cfg i]) [k..<n])"
proof (induction "n - k" arbitrary: k inc)
  case 0
  then show ?case by simp
next
  case (Suc d)
  then have kn: "k < n" and d: "d = n - Suc k" by auto
  have rest: "effu_c2_loop cfg (base_channels cfg * 2 ^ k) [Suc k..<n] =
     ok (map (\<lambda>i. [encoder_block cfg i]) [Suc k..<n])"
    using Suc.hyps(1)[OF d Suc.prems(1,2,3)] by (simp add: encoder_in_channels_def)
  show ?case
    using kn Suc.prems
    by (simp add: upt_conv_Cons rest BasicConvBlock_init_None encoder_block_def)
qed

lemma sum_list_take_enc_channels:
  "i \<le> nat (num_stages cfg) \<Longrightarrow> sum_list (take i (enc_channels_of cfg)) = fusion_channels cfg i"
proof -
  assume "i \<le> nat (num_stages cfg)"
  then have "take i (enc_channels_of cfg) = map (\<lambda>j. base_channels cfg * 2 ^ j) [0..<i]"
    by (simp add: enc_channels_of_def take_map min_def)
  then show ?thesis
    by (simp add: fusion_channels_def sum_list_sum_nth atLeast0LessThan)
qed

lemma build_effu_cbam_closed:
  "build_effu_cbam cfg (enc_channels_of cfg) =
     ok (map (\<lambda>i. CBAMBlock_init (fusion_channels cfg i)) [1..<nat (num_stages cfg)])"
  unfolding build_effu_cbam_def
  by (rule mapM_ok) (simp add: sum_list_take_enc_channels)

lemma build_effu_c1_closed:
  "build_effu_c1 cfg (enc_channels_of cfg) =
     ok (map (\<lambda>i. [fusion_conv cfg i]) [1..<nat (num_stages cfg)])"
  unfolding build_effu_c1_def
proof (rule mapM_ok)
  fix i assume "i \<in> set [1..<nat (num_stages cfg)]"
  then have i: "1 \<le> i" "i < nat (num_stages cfg)" by auto
  then have lt: "i - 1 < nat (num_stages cfg)" by simp
  then have "i - 1 < length (enc_channels_of cfg)" "enc_channels_of cfg ! (i - 1) = base_channels cfg * 2 ^ (i - 1)"
    by (simp_all add: enc_channels_of_def)
  then show "cbind (index (enc_channels_of cfg) (i - 1)) (\<lambda>outc.
                 ok [ConvModule_init (sum_list (take i (enc_channels_of cfg))) outc 1 1 1 0
                       (conv_cfg cfg) (norm_cfg cfg) (act_cfg cfg)]) = ok [fusion_conv cfg i]"
    using i by (simp add: sum_list_take_enc_channels fusion_conv_def)
qed

lemma build_decoder_closed:
  "build_decoder cfg (enc_channels_of cfg) =
     ok (map (decoder_block cfg) [0..<nat (num_stages cfg - 1)])"
  unfolding build_decoder_def
proof (rule mapM_ok)
  fix i assume "i \<in> set [0..<nat (num_stages cfg - 1)]"
  then have i: "i < nat (num_stages cfg)" "Suc i < nat (num_stages cfg)" by auto
  have two: "[0..<2] = [0, Suc 0]" by (simp add: upt_conv_Cons)
  show "cbind (index (enc_channels_of cfg) i) (\<lambda>c0.
               cbind (index (enc_channels_of cfg) (i + 1)) (\<lambda>c1.
               cbind (index (enc_channels_of cfg) i) (\<lambda>outc.
               BasicConvBlock_init (c0 + c1) outc 2 1 1 (with_cp cfg)
                 (conv_cfg cfg) (norm_cfg cfg) (act_cfg cfg) None None))) = ok (decoder_block cfg i)"
    using i by (simp add: enc_channels_of_def BasicConvBlock_init_None decoder_block_def two)
qed

lemma check_lengths_iff:
  "check_lengths cfg = ok () \<longleftrightarrow> dcn cfg = None \<and> plugins cfg = None \<and> lengths_ok cfg"
  by (auto simp: check_lengths_def lengths_ok_def py_assert_def)

lemma check_lengths_cases:
  "check_lengths cfg = ok () \<or> (\<exists>msg. check_lengths cfg = raise (AssertionError msg))"
  by (auto simp: check_lengths_def py_assert_def)

lemma build_effu_c2_closed:
  "lengths_ok cfg \<Longrightarrow> build_effu_c2 cfg = ok (map (\<lambda>i. [encoder_block cfg i]) [0..<nat (num_stages cfg)])"
  unfolding build_effu_c2_def lengths_ok_def
  by (rule effu_c2_loop_closed) (auto simp: encoder_in_channels_def)

lemma AMDNet_EFFU_init_closed:
  assumes "init_pretrained (pretrained cfg) (init_cfg cfg) = (w, Inr icfg)"
    and "dcn cfg = None" and "plugins cfg = None" and "lengths_ok cfg"
  shows "AMDNet_EFFU_init cfg = (w, Inr (built_model cfg icfg))"
proof -
  have "check_lengths cfg = ok ()"
    using assms by (simp add: check_lengths_iff)
  then show ?thesis
    using assms
    by (simp add: AMDNet_EFFU_init_def cbind_Pair_Inr build_effu_cbam_closed
        build_effu_c1_closed build_effu_c2_closed build_decoder_closed built_model_def ok_def)
qed

lemma AMDNet_EFFU_init_Inr:
  assumes "AMDNet_EFFU_init cfg = (w, Inr m)"
  shows "\<exists>icfg. init_pretrained (pretrained cfg) (init_cfg cfg) = (w, Inr icfg) \<and>
           dcn cfg = None \<and> plugins cfg = None \<and> lengths_ok cfg \<and> m = built_model cfg icfg"
proof -
  from assms obtain w1 icfg w2 where
    ip: "init_pretrained (pretrained cfg) (init_cfg cfg) = (w1, Inr icfg)"
    and rest: "cbind (check_lengths cfg) (\<lambda>_.
     cbind (build_effu_cbam cfg (enc_channels_of cfg)) (\<lambda>cbams.
     cbind (build_effu_c1 cfg (enc_channels_of cfg)) (\<lambda>c1s.
     cbind (build_effu_c2 cfg) (\<lambda>c2s.
     cbind (build_decoder cfg (enc_channels_of cfg)) (\<lambda>decs.
     ok \<lparr>self_pretrained = pretrained cfg,
         self_init_cfg = icfg,
         self_num_stages = num_stages cfg,
         self_strides = strides cfg,
         self_downsamples = downsamples cfg,
         self_norm_eval = norm_eval cfg,
         self_base_channels = base_channels cfg,
         pool_16 = MaxPool2d 16 16 True,
         pool_8 = MaxPool2d 8 8 True,
         pool_4 = MaxPool2d 4 4 True,
         pool_2 = MaxPool2d 2 2 True,
         up_2 = Upsample 2 ''bilinear'' True,
         up_4 = Upsample 4 ''bilinear'' True,
         up_8 = Upsample 8 ''bilinear'' True,
         up_16 = Upsample 16 ''bilinear'' True,
         effu_cbam = cbams,
         effu_c1 = c1s,
         effu_c2 = c2s,
         decoder = decs\<rparr>))))) = (w2, Inr m)" and w: "w = w1 @ w2"
    unfolding AMDNet_EFFU_init_def cbind_Inr_iff by blast
  from rest have cl: "check_lengths cfg = ok ()"
    using check_lengths_cases[of cfg] by (auto simp: raise_def)
  then have ok: "dcn cfg = None" "plugins cfg = None" "lengths_ok cfg"
    by (simp_all add: check_lengths_iff)
  have "AMDNet_EFFU_init cfg = (w1, Inr (built_model cfg icfg))"
    using AMDNet_EFFU_init_closed[OF ip ok] .
  with assms ip ok show ?thesis by simp
qed

subsection \<open>The convolutions of a basic block\<close>

text \<open>
  C8. In a \<^verbatim>\<open>BasicConvBlock\<close> built from \<open>inc\<close>, \<open>outc\<close>, \<open>n\<close>, \<open>stride\<close> and \<open>dilation\<close>
  there are \<open>n\<close> convolutions with kernel size 3. Only the first has the requested
  stride, all later ones have stride 1. The first has dilation 1 and padding 1, all
  later ones have the requested dilation and a padding equal to it. The first maps
  \<open>inc\<close> to \<open>outc\<close> channels, all later ones map \<open>outc\<close> to \<open>outc\<close>.
\<close>

theorem BasicConvBlock_layout:
  assumes "BasicConvBlock_init inc outc n stride dilation wcp ccfg ncfg acfg d p = (l, Inr blk)"
  shows "length (bcb_convs blk) = nat n \<and>
         (\<forall>i < nat n.
            cm_kernel_size (bcb_convs blk ! i) = 3 \<and>
            cm_in_channels (bcb_convs blk ! i) = (if i = 0 then inc else outc) \<and>
            cm_out_channels (bcb_convs blk ! i) = outc \<and>
            cm_stride (bcb_convs blk ! i) = (if i = 0 then stride else 1) \<and>
            cm_dilation (bcb_convs blk ! i) = (if i = 0 then 1 else dilation) \<and>
            cm_padding (bcb_convs blk ! i) = (if i = 0 then 1 else dilation))"
proof -
  have none: "d = None" "p = None"
    using assms by (auto simp: BasicConvBlock_init_def py_assert_def split: if_splits)
  then have "blk = \<lparr>bcb_with_cp = wcp,
         bcb_convs = map (\<lambda>i. ConvModule_init (if i = 0 then inc else outc) outc 3
                                (if i = 0 then stride else 1) (if i = 0 then 1 else dilation)
                                (if i = 0 then 1 else dilation) ccfg ncfg acfg) [0..<nat n]\<rparr>"
    using assms by (simp add: BasicConvBlock_init_None)
  then show ?thesis
    by (simp add: ConvModule_init_def)
qed

theorem BasicConvBlock_layout_witness:
  "BasicConvBlock_init 3 64 3 2 4 False None (Some BN) (Some ''ReLU'') None None =
     ([], Inr \<lparr>bcb_with_cp = False,
               bcb_convs = [ConvModule_init 3 64 3 2 1 1 None (Some BN) (Some ''ReLU''),
                            ConvModule_init 64 64 3 1 4 4 None (Some BN) (Some ''ReLU''),
                            ConvModule_init 64 64 3 1 4 4 None (Some BN) (Some ''ReLU'')]\<rparr>) \<and>
   cm_stride (ConvModule_init 3 64 3 2 1 1 None (Some BN) (Some ''ReLU'')) = 2 \<and>
   cm_stride (ConvModule_init 64 64 3 1 4 4 None (Some BN) (Some ''ReLU'')) = 1 \<and>
   cm_dilation (ConvModule_init 3 64 3 2 1 1 None (Some BN) (Some ''ReLU'')) = 1 \<and>
   cm_dilation (ConvModule_init 64 64 3 1 4 4 None (Some BN) (Some ''ReLU'')) = 4"
proof -
  have three: "[0..<3] = [0::nat, 1, 2]"
    by (simp add: upt_conv_Cons)
  have built: "BasicConvBlock_init 3 64 3 2 4 False None (Some BN) (Some ''ReLU'') None None =
     ([], Inr \<lparr>bcb_with_cp = False,
               bcb_convs = [ConvModule_init 3 64 3 2 1 1 None (Some BN) (Some ''ReLU''),
                            ConvModule_init 64 64 3 1 4 4 None (Some BN) (Some ''ReLU''),
                            ConvModule_init 64 64 3 1 4 4 None (Some BN) (Some ''ReLU'')]\<rparr>)"
    by (simp add: BasicConvBlock_init_None three)
  from BasicConvBlock_layout[OF built] have
    "\<forall>i<nat 3. cm_stride ([ConvModule_init 3 64 3 2 1 1 None (Some BN) (Some ''ReLU''),
                            ConvModule_init 64 64 3 1 4 4 None (Some BN) (Some ''ReLU''),
                            ConvModule_init 64 64 3 1 4 4 None (Some BN) (Some ''ReLU'')] ! i) = (if i = 0 then 2 else 1)
        \<and> cm_dilation ([ConvModule_init 3 64 3 2 1 1 None (Some BN) (Some ''ReLU''),
                            ConvModule_init 64 64 3 1 4 4 None (Some BN) (Some ''ReLU''),
                            ConvModule_init 64 64 3 1 4 4 None (Some BN) (Some ''ReLU'')] ! i) = (if i = 0 then 1 else 4)"
    by simp
  from this[rule_format, of 0] this[rule_format, of 1] built show ?thesis
    by simp
qed

subsection \<open>The decoder parameters that are only checked for length\<close>

lemma built_model_dec_update:
  "built_model (cfg\<lparr>dec_num_convs := dn, dec_dilations := dd\<rparr>) icfg = built_model cfg icfg"
  by (simp add: built_model_def encoder_block_def decoder_block_def fusion_conv_def
      fusion_channels_def encoder_in_channels_def)

text \<open>
  C9. \<^verbatim>\<open>dec_num_convs\<close> and \<^verbatim>\<open>dec_dilations\<close> are validated for their length and never
  used to build the network: replacing them, in a configuration that constructs, by
  sequences of the same lengths gives the same warnings and the same model, and every
  decoder block of that model has exactly two convolutions, each with dilation 1.
\<close>

theorem dec_params_unused:
  assumes "AMDNet_EFFU_init cfg = (w, Inr m)"
    and "length dn = length (dec_num_convs cfg)"
    and "length dd = length (dec_dilations cfg)"
  shows "AMDNet_EFFU_init (cfg\<lparr>dec_num_convs := dn, dec_dilations := dd\<rparr>) = (w, Inr m) \<and>
         (\<forall>blk \<in> set (decoder m).
            length (bcb_convs blk) = 2 \<and> (\<forall>c \<in> set (bcb_convs blk). cm_dilation c = 1))"
proof -
  from AMDNet_EFFU_init_Inr[OF assms(1)] obtain icfg where
    ip: "init_pretrained (pretrained cfg) (init_cfg cfg) = (w, Inr icfg)"
    and d: "dcn cfg = None" and p: "plugins cfg = None" and lo: "lengths_ok cfg"
    and m: "m = built_model cfg icfg" by blast
  let ?cfg = "cfg\<lparr>dec_num_convs := dn, dec_dilations := dd\<rparr>"
  have lo': "lengths_ok ?cfg"
    using lo assms(2,3) by (simp add: lengths_ok_def)
  have "AMDNet_EFFU_init ?cfg = (w, Inr (built_model ?cfg icfg))"
    by (rule AMDNet_EFFU_init_closed) (use ip d p lo' in simp_all)
  then have same: "AMDNet_EFFU_init ?cfg = (w, Inr m)"
    by (simp add: m built_model_dec_update)
  have "\<forall>blk \<in> set (decoder m).
            length (bcb_convs blk) = 2 \<and> (\<forall>c \<in> set (bcb_convs blk). cm_dilation c = 1)"
    by (auto simp: m built_model_def decoder_block_def ConvModule_init_def)
  with same show ?thesis by simp
qed

lemma default_config_init:
  "AMDNet_EFFU_init default_config = ([], Inr (built_model default_config default_init_cfg))"
  by (rule AMDNet_EFFU_init_closed)
     (simp_all add: default_config_def init_pretrained_def lengths_ok_def)

theorem dec_params_unused_witness:
  "AMDNet_EFFU_init default_config = ([], Inr (built_model default_config default_init_cfg)) \<and>
   AMDNet_EFFU_init (default_config\<lparr>dec_num_convs := [7, 7, 7, 7], dec_dilations := [3, 3, 3, 3]\<rparr>)
     = ([], Inr (built_model default_config default_init_cfg)) \<and>
   list_all (\<lambda>blk. map cm_dilation (bcb_convs blk) = [1, 1])
     (decoder (built_model default_config default_init_cfg))"
proof -
  have lens: "length [7, 7, 7, 7 :: int] = length (dec_num_convs default_config)"
    "length [3, 3, 3, 3 :: int] = length (dec_dilations default_config)"
    by (simp_all add: default_config_def)
  have four: "[0..<4] = [0::nat, 1, 2, 3]"
    by (simp add: upt_conv_Cons)
  have "list_all (\<lambda>blk. map cm_dilation (bcb_convs blk) = [1, 1])
     (decoder (built_model default_config default_init_cfg))"
    by (simp add: built_model_def default_config_def four decoder_block_def ConvModule_init_def)
  with dec_params_unused[OF default_config_init lens] default_config_init
  show ?thesis by simp
qed


subsection \<open>The length assertions of the constructor\<close>

lemma fst_snd_ok_raise [simp]:
  "fst (ok a) = []" "snd (ok a) = Inr a" "fst (raise e) = []" "snd (raise e) = Inl e"
  by (simp_all add: ok_def raise_def)

lemma AMDNet_EFFU_init_after_pretrained:
  assumes "init_pretrained (pretrained cfg) (init_cfg cfg) = (w, Inr icfg)"
  shows "AMDNet_EFFU_init cfg =
           (w, case snd (check_lengths cfg) of
                 Inl e \<Rightarrow> Inl e
               | Inr u \<Rightarrow> Inr (built_model cfg icfg))"
proof (cases "check_lengths cfg = ok ()")
  case True
  then have "dcn cfg = None" "plugins cfg = None" "lengths_ok cfg"
    by (simp_all add: check_lengths_iff)
  from AMDNet_EFFU_init_closed[OF assms this] True show ?thesis
    by (simp add: ok_def)
next
  case False
  then obtain msg where "check_lengths cfg = raise (AssertionError msg)"
    using check_lengths_cases[of cfg] by blast
  then show ?thesis
    using assms by (simp add: AMDNet_EFFU_init_def cbind_Pair_Inr raise_def)
qed




subsection \<open>The arguments pretrained and init-cfg\<close>

text \<open>
  C6, as amended. Construction fails with the assertion error on \<^verbatim>\<open>init_cfg\<close> and
  \<^verbatim>\<open>pretrained\<close> when both are given and both are true as Python truth values (a
  non-empty dict or list, a non-empty string or a true object). Otherwise it fails
  with a \<^verbatim>\<open>TypeError\<close> when \<^verbatim>\<open>pretrained\<close> is neither a string nor \<^verbatim>\<open>None\<close>, and a
  string \<^verbatim>\<open>pretrained\<close> produces the deprecation warning, after which construction
  proceeds through the remaining checks and builds the model with \<^verbatim>\<open>init_cfg\<close> set to
  the directive that loads the checkpoint.
\<close>

theorem pretrained_and_init_cfg:
  "(truthy_init (init_cfg cfg) \<and> truthy_pretrained (pretrained cfg) \<longrightarrow>
      AMDNet_EFFU_init cfg = ([], Inl (AssertionError InitCfgAndPretrained))) \<and>
   (\<not> (truthy_init (init_cfg cfg) \<and> truthy_pretrained (pretrained cfg)) \<longrightarrow>
      (\<forall>b. pretrained cfg = PretrainedOther b \<longrightarrow>
         AMDNet_EFFU_init cfg = ([], Inl (TypeError ''pretrained must be a str or None''))) \<and>
      (\<forall>s. pretrained cfg = PretrainedStr s \<longrightarrow>
         AMDNet_EFFU_init cfg =
           ([Warn deprecation_warning],
            case snd (check_lengths cfg) of
              Inl e \<Rightarrow> Inl e
            | Inr u \<Rightarrow> Inr (built_model cfg
                (InitDict [(''type'', VStr ''Pretrained''), (''checkpoint'', VStr s)])))))"
proof (intro conjI impI allI)
  assume "truthy_init (init_cfg cfg) \<and> truthy_pretrained (pretrained cfg)"
  then show "AMDNet_EFFU_init cfg = ([], Inl (AssertionError InitCfgAndPretrained))"
    by (simp add: AMDNet_EFFU_init_def init_pretrained_def raise_def)
next
  fix b
  assume "\<not> (truthy_init (init_cfg cfg) \<and> truthy_pretrained (pretrained cfg))"
    and "pretrained cfg = PretrainedOther b"
  then show "AMDNet_EFFU_init cfg = ([], Inl (TypeError ''pretrained must be a str or None''))"
    by (simp add: AMDNet_EFFU_init_def init_pretrained_def raise_def)
next
  fix s
  assume "\<not> (truthy_init (init_cfg cfg) \<and> truthy_pretrained (pretrained cfg))"
    and "pretrained cfg = PretrainedStr s"
  then have "init_pretrained (pretrained cfg) (init_cfg cfg) =
      ([Warn deprecation_warning],
       Inr (InitDict [(''type'', VStr ''Pretrained''), (''checkpoint'', VStr s)]))"
    by (simp add: init_pretrained_def emit_def cbind_Pair_Inr)
  then show "AMDNet_EFFU_init cfg =
           ([Warn deprecation_warning],
            case snd (check_lengths cfg) of
              Inl e \<Rightarrow> Inl e
            | Inr u \<Rightarrow> Inr (built_model cfg
                (InitDict [(''type'', VStr ''Pretrained''), (''checkpoint'', VStr s)])))"
    by (rule AMDNet_EFFU_init_after_pretrained)
qed

theorem pretrained_and_init_cfg_witness:
  "AMDNet_EFFU_init (default_config\<lparr>pretrained := PretrainedStr ''ckpt.pth'',
       init_cfg := InitDict [(''type'', VStr ''Kaiming'')]\<rparr>) =
     ([], Inl (AssertionError InitCfgAndPretrained)) \<and>
   AMDNet_EFFU_init (default_config\<lparr>pretrained := PretrainedOther True\<rparr>) =
     ([], Inl (TypeError ''pretrained must be a str or None'')) \<and>
   AMDNet_EFFU_init (default_config\<lparr>pretrained := PretrainedStr ''ckpt.pth''\<rparr>) =
     ([Warn deprecation_warning],
      Inr (built_model (default_config\<lparr>pretrained := PretrainedStr ''ckpt.pth''\<rparr>)
             (InitDict [(''type'', VStr ''Pretrained''), (''checkpoint'', VStr ''ckpt.pth'')])))"
  using pretrained_and_init_cfg[of "default_config\<lparr>pretrained := PretrainedStr ''ckpt.pth'',
       init_cfg := InitDict [(''type'', VStr ''Kaiming'')]\<rparr>"]
    pretrained_and_init_cfg[of "default_config\<lparr>pretrained := PretrainedOther True\<rparr>"]
    pretrained_and_init_cfg[of "default_config\<lparr>pretrained := PretrainedStr ''ckpt.pth''\<rparr>"]
  by (auto simp: default_config_def check_lengths_def)

text \<open>
  The claim as worded fails at two inputs. With the empty string as \<^verbatim>\<open>pretrained\<close> and
  a Kaiming \<^verbatim>\<open>init_cfg\<close>, both are supplied, yet no assertion fails: the warning is
  issued, the given \<^verbatim>\<open>init_cfg\<close> is replaced and construction succeeds. With a true
  object that is not a string as \<^verbatim>\<open>pretrained\<close> and the same \<^verbatim>\<open>init_cfg\<close>, the error
  is the assertion error, not a \<^verbatim>\<open>TypeError\<close>.
\<close>

theorem pretrained_and_init_cfg_counterexample:
  "AMDNet_EFFU_init (default_config\<lparr>pretrained := PretrainedStr [],
       init_cfg := InitDict [(''type'', VStr ''Kaiming''), (''layer'', VStr ''Conv2d'')]\<rparr>) =
     ([Warn deprecation_warning],
      Inr (built_model (default_config\<lparr>pretrained := PretrainedStr [],
             init_cfg := InitDict [(''type'', VStr ''Kaiming''), (''layer'', VStr ''Conv2d'')]\<rparr>)
             (InitDict [(''type'', VStr ''Pretrained''), (''checkpoint'', VStr [])]))) \<and>
   AMDNet_EFFU_init (default_config\<lparr>pretrained := PretrainedOther True,
       init_cfg := InitDict [(''type'', VStr ''Kaiming''), (''layer'', VStr ''Conv2d'')]\<rparr>) =
     ([], Inl (AssertionError InitCfgAndPretrained))"
proof -
  let ?c = "default_config\<lparr>pretrained := PretrainedStr [],
       init_cfg := InitDict [(''type'', VStr ''Kaiming''), (''layer'', VStr ''Conv2d'')]\<rparr>"
  have "init_pretrained (pretrained ?c) (init_cfg ?c) =
      ([Warn deprecation_warning],
       Inr (InitDict [(''type'', VStr ''Pretrained''), (''checkpoint'', VStr [])]))"
    by (simp add: init_pretrained_def emit_def cbind_Pair_Inr default_config_def)
  from AMDNet_EFFU_init_after_pretrained[OF this] show ?thesis
    by (simp add: default_config_def check_lengths_def AMDNet_EFFU_init_def
        init_pretrained_def raise_def)
qed

subsection \<open>The divisibility assertion of the forward pass\<close>

lemma rate_loop_closed:
  "n \<le> length (self_strides m) \<Longrightarrow> n \<le> Suc (length (self_downsamples m)) \<Longrightarrow> 1 \<le> k \<Longrightarrow>
   rate_loop m r [k..<n] =
     ok (r * prod_list (map (\<lambda>i. 2)
            (filter (\<lambda>i. self_strides m ! i = 2 \<or> self_downsamples m ! (i - 1)) [k..<n])))"
proof (induction "n - k" arbitrary: k r)
  case 0
  then show ?case by simp
next
  case (Suc d)
  then have kn: "k < n" and d: "d = n - Suc k" by auto
  have k1: "k - 1 < length (self_downsamples m)"
    using kn Suc.prems by simp
  have rest: "rate_loop m r' [Suc k..<n] =
     ok (r' * prod_list (map (\<lambda>i. 2)
            (filter (\<lambda>i. self_strides m ! i = 2 \<or> self_downsamples m ! (i - 1)) [Suc k..<n])))" for r'
    using Suc.hyps(1)[OF d Suc.prems(1,2)] by simp
  show ?case
    using kn Suc.prems k1
    by (simp add: upt_conv_Cons rest)
qed

lemma check_input_divisible_built:
  assumes "lengths_ok cfg"
  shows "check_input_divisible (built_model cfg icfg) x =
     py_assert (height x mod whole_downsample_rate_spec (strides cfg) (downsamples cfg)
                                 (nat (num_stages cfg)) = 0 \<and>
                width x mod whole_downsample_rate_spec (strides cfg) (downsamples cfg)
                                 (nat (num_stages cfg)) = 0)
       (NotDivisible (height x) (width x)
          (whole_downsample_rate_spec (strides cfg) (downsamples cfg) (nat (num_stages cfg)))
          (num_stages cfg) (strides cfg) (downsamples cfg))"
proof -
  let ?m = "built_model cfg icfg"
  have f: "self_strides ?m = strides cfg" "self_downsamples ?m = downsamples cfg"
    "self_num_stages ?m = num_stages cfg"
    by (simp_all add: built_model_def)
  have "rate_loop ?m 1 [1..<nat (num_stages cfg)] =
      ok (whole_downsample_rate_spec (strides cfg) (downsamples cfg) (nat (num_stages cfg)))"
    using assms by (subst rate_loop_closed) (auto simp: f lengths_ok_def whole_downsample_rate_spec_def)
  then show ?thesis
    by (simp add: check_input_divisible_def f)
qed

text \<open>
  C2. For a constructed model and an input whose height or width is not divisible by
  the cumulative downsampling factor (by the specification's formula: the product of 2
  over every stage index \<open>i \<ge> 1\<close> where \<^verbatim>\<open>strides[i]\<close> is 2 or \<^verbatim>\<open>downsamples[i-1]\<close> is
  true), the forward pass raises the assertion error that names the height, the width
  and the factor (with \<^verbatim>\<open>num_stages\<close>, \<^verbatim>\<open>strides\<close> and \<^verbatim>\<open>downsamples\<close>), and the
  event log is empty: no layer has run.
\<close>

theorem forward_rejects_indivisible:
  assumes "AMDNet_EFFU_init cfg = (w, Inr m)"
    and "height x mod whole_downsample_rate_spec (strides cfg) (downsamples cfg)
                        (nat (num_stages cfg)) \<noteq> 0 \<or>
         width x mod whole_downsample_rate_spec (strides cfg) (downsamples cfg)
                        (nat (num_stages cfg)) \<noteq> 0"
  shows "forward m x =
     ([], Inl (AssertionError (NotDivisible (height x) (width x)
        (whole_downsample_rate_spec (strides cfg) (downsamples cfg) (nat (num_stages cfg)))
        (num_stages cfg) (strides cfg) (downsamples cfg))))"
proof -
  from AMDNet_EFFU_init_Inr[OF assms(1)] obtain icfg where
    lo: "lengths_ok cfg" and m: "m = built_model cfg icfg" by blast
  show ?thesis
    using assms(2)
    by (auto simp: forward_def m check_input_divisible_built[OF lo] raise_def)
qed

lemma default_rate:
  "whole_downsample_rate_spec (strides default_config) (downsamples default_config)
     (nat (num_stages default_config)) = 16"
  by (simp add: whole_downsample_rate_spec_def default_config_def upt_conv_Cons)

theorem forward_rejects_indivisible_witness:
  "whole_downsample_rate_spec [1, 1, 1, 1, 1] [True, True, True, True] 5 = 16 \<and>
   forward (built_model default_config default_init_cfg)
      \<lparr>batch = 2, channels = 3, height = 24, width = 32, graph = Input\<rparr> =
     ([], Inl (AssertionError (NotDivisible 24 32 16 5 [1, 1, 1, 1, 1]
                                 [True, True, True, True])))"
proof -
  have r: "whole_downsample_rate_spec [1, 1, 1, 1, 1] [True, True, True, True] 5 = 16"
    using default_rate by (simp add: default_config_def)
  have "height \<lparr>batch = 2, channels = 3, height = 24, width = 32, graph = Input\<rparr>
          mod whole_downsample_rate_spec (strides default_config) (downsamples default_config)
                        (nat (num_stages default_config)) \<noteq> 0 \<or>
        width \<lparr>batch = 2, channels = 3, height = 24, width = 32, graph = Input\<rparr>
          mod whole_downsample_rate_spec (strides default_config) (downsamples default_config)
                        (nat (num_stages default_config)) \<noteq> 0"
    by (simp add: default_rate)
  from forward_rejects_indivisible[OF default_config_init this] r show ?thesis
    by (simp add: default_rate) (simp add: default_config_def)
qed

subsection \<open>The forward pass in the default configuration\<close>

lemma conv_out_size_same:
  "cm_stride cm = 1 \<Longrightarrow> 2 * cm_padding cm = cm_dilation cm * (int (cm_kernel_size cm) - 1) \<Longrightarrow>
   conv_out_size h cm = h"
  by (simp add: conv_out_size_def)

lemma pool_out_size_exact:
  "0 < k \<Longrightarrow> pool_out_size (k * q) (MaxPool2d k k True) = q"
proof -
  assume k: "0 < k"
  have "(int k - int (k * q)) div int k = 1 - int q"
  proof -
    have "int k - int (k * q) = (1 - int q) * int k"
      by (simp add: algebra_simps)
    then show ?thesis using k by simp
  qed
  then have out: "nat (1 - ((int k - int (k * q)) div int k)) = q"
    by simp
  show ?thesis
    using k by (auto simp: pool_out_size_def MaxPool2d_def out Let_def)
qed

lemma ConvModule_forward_ok:
  "channels x = cm_in_channels cm \<Longrightarrow> 0 < cm_stride cm \<Longrightarrow> 0 < cm_dilation cm \<Longrightarrow>
   0 \<le> cm_padding cm \<Longrightarrow>
   ConvModule_forward mid cm x =
     ([ExecConv mid], Inr \<lparr>batch = batch x, channels = cm_out_channels cm,
                 height = conv_out_size (height x) cm,
                 width = conv_out_size (width x) cm,
                 graph = ConvE mid cm (graph x)\<rparr>)"
  by (simp add: ConvModule_forward_def emit_def cbind_Pair_Inr)

lemma CBAMBlock_forward_ok:
  "channels x = cbam_channels cb \<Longrightarrow>
   CBAMBlock_forward mid cb x = ([ExecCBAM mid], Inr (x\<lparr>graph := CBAME mid cb (graph x)\<rparr>))"
  by (simp add: CBAMBlock_forward_def emit_def cbind_Pair_Inr)

lemma MaxPool2d_forward_ok:
  "0 < k \<Longrightarrow> 0 < s \<Longrightarrow>
   MaxPool2d_forward (MaxPool2d k s c) x =
     ([ExecMaxPool k], Inr (x\<lparr>height := pool_out_size (height x) (MaxPool2d k s c),
                   width := pool_out_size (width x) (MaxPool2d k s c),
                   graph := MaxPoolE (MaxPool2d k s c) (graph x)\<rparr>))"
  by (simp add: MaxPool2d_forward_def emit_def cbind_Pair_Inr MaxPool2d_def)

lemma Upsample_forward_ok:
  "Upsample_forward us x =
     ([ExecUpsample (us_scale_factor us)], Inr (x\<lparr>height := height x * us_scale_factor us,
             width := width x * us_scale_factor us,
             graph := UpsampleE us (graph x)\<rparr>))"
  by (simp add: Upsample_forward_def emit_def cbind_Pair_Inr)

lemma torch_cat_ok:
  "list_all (\<lambda>u. batch u = batch t \<and> height u = height t \<and> width u = width t) rest \<Longrightarrow>
   torch_cat (t # rest) =
     ([ExecCat], Inr \<lparr>batch = batch t, channels = sum_list (map channels (t # rest)),
                     height = height t, width = width t,
                     graph = CatE (map graph (t # rest))\<rparr>)"
  by (simp add: torch_cat_def emit_def cbind_Pair_Inr)

lemma cbind_Pair_Inr_case:
  "cbind (l, Inr a) f = (case f a of (l', r) \<Rightarrow> (l @ l', r))"
  by (simp add: cbind_def)

lemma upt5: "[0..<5] = [0::nat, 1, 2, 3, 4]" "[1..<5] = [1::nat, 2, 3, 4]" "[0..<4] = [0::nat,1,2,3]"
  "[0..<2] = [0::nat, 1]"
  by (simp_all add: upt_conv_Cons)

lemmas layer_ok = ConvModule_forward_ok CBAMBlock_forward_ok MaxPool2d_forward_ok
  Upsample_forward_ok torch_cat_ok conv_out_size_same cbind_Pair_Inr_case ok_def

lemma fusion_channels_closed: "fusion_channels cfg i = base_channels cfg * (2 ^ i - 1)"
proof -
  have "(\<Sum>j<i. (2::nat) ^ j) = 2 ^ i - 1"
    by (induction i) simp_all
  then show ?thesis
    by (simp add: fusion_channels_def sum_distrib_left[symmetric])
qed

lemma fusion_channels_num:
  "fusion_channels cfg (Suc 0) = base_channels cfg"
  "fusion_channels cfg (Suc (Suc 0)) = 3 * base_channels cfg"
  "fusion_channels cfg 2 = 3 * base_channels cfg"
  "fusion_channels cfg 3 = 7 * base_channels cfg"
  "fusion_channels cfg 4 = 15 * base_channels cfg"
  by (simp_all add: fusion_channels_closed)

lemmas default_built = built_model_def default_stages_def upt5 encoder_block_def
  encoder_in_channels_def decoder_block_def fusion_conv_def fusion_channels_closed
  ConvModule_init_def CBAMBlock_init_def Upsample_def
  effu_c2_forward_def effu_c1_forward_def BasicConvBlock_forward_def

lemma default_x0:
  assumes "default_stages cfg" and "has_shape x b (in_channels cfg) h w"
  shows "\<exists>l y. forward_x0 (built_model cfg icfg) x = (l, Inr y) \<and>
           has_shape y b (base_channels cfg) h w"
  using assms
  by (simp add: forward_x0_def has_shape_def default_built layer_ok)

lemma pool_16:
   "pool_out_size (16 * q) (MaxPool2d 2 2 True) = 8 * q"
   "pool_out_size (16 * q) (MaxPool2d 4 4 True) = 4 * q"
   "pool_out_size (16 * q) (MaxPool2d 8 8 True) = 2 * q"
   "pool_out_size (16 * q) (MaxPool2d 16 16 True) = q"
   "pool_out_size (8 * q) (MaxPool2d 2 2 True) = 4 * q"
   "pool_out_size (8 * q) (MaxPool2d 4 4 True) = 2 * q"
   "pool_out_size (8 * q) (MaxPool2d 8 8 True) = q"
   "pool_out_size (4 * q) (MaxPool2d 2 2 True) = 2 * q"
   "pool_out_size (4 * q) (MaxPool2d 4 4 True) = q"
   "pool_out_size (2 * q) (MaxPool2d 2 2 True) = q"
  using pool_out_size_exact[of 2 "8 * q"] pool_out_size_exact[of 4 "4 * q"]
    pool_out_size_exact[of 8 "2 * q"] pool_out_size_exact[of 16 q]
    pool_out_size_exact[of 2 "4 * q"] pool_out_size_exact[of 4 "2 * q"]
    pool_out_size_exact[of 8 q] pool_out_size_exact[of 2 "2 * q"]
    pool_out_size_exact[of 4 q] pool_out_size_exact[of 2 q]
  by simp_all

lemma default_x1:
  assumes "default_stages cfg" and "has_shape x0 b (base_channels cfg) (16 * h) (16 * w)"
  shows "\<exists>l y. forward_x1 (built_model cfg icfg) x0 = (l, Inr y) \<and>
           has_shape y b (2 * base_channels cfg) (8 * h) (8 * w)"
  using assms
  by (simp add: forward_x1_def has_shape_def default_built layer_ok pool_16 lessThan_Suc)


lemma default_x2:
  assumes "default_stages cfg" and "has_shape x0 b (base_channels cfg) (16 * h) (16 * w)"
    and "has_shape x1 b (2 * base_channels cfg) (8 * h) (8 * w)"
  shows "\<exists>l y. forward_x2 (built_model cfg icfg) x0 x1 = (l, Inr y) \<and>
           has_shape y b (4 * base_channels cfg) (4 * h) (4 * w)"
  using assms
  by (simp add: forward_x2_def has_shape_def default_built layer_ok pool_16 lessThan_Suc)

lemma default_x3:
  assumes "default_stages cfg" and "has_shape x0 b (base_channels cfg) (16 * h) (16 * w)"
    and "has_shape x1 b (2 * base_channels cfg) (8 * h) (8 * w)"
    and "has_shape x2 b (4 * base_channels cfg) (4 * h) (4 * w)"
  shows "\<exists>l y. forward_x3 (built_model cfg icfg) x0 x1 x2 = (l, Inr y) \<and>
           has_shape y b (8 * base_channels cfg) (2 * h) (2 * w)"
  using assms
  by (simp add: forward_x3_def has_shape_def default_built layer_ok pool_16 lessThan_Suc)

lemma default_x4:
  assumes "default_stages cfg" and "has_shape x0 b (base_channels cfg) (16 * h) (16 * w)"
    and "has_shape x1 b (2 * base_channels cfg) (8 * h) (8 * w)"
    and "has_shape x2 b (4 * base_channels cfg) (4 * h) (4 * w)"
    and "has_shape x3 b (8 * base_channels cfg) (2 * h) (2 * w)"
  shows "\<exists>l y. forward_x4 (built_model cfg icfg) x0 x1 x2 x3 = (l, Inr y) \<and>
           has_shape y b (16 * base_channels cfg) h w \<and>
           producer (graph y) = Some (Effu_c2 4 0 1)"
  using assms
  by (simp add: forward_x4_def has_shape_def default_built layer_ok pool_16 lessThan_Suc)

lemma default_dec:
  assumes "num_stages cfg = 5" and "i < 4"
    and "has_shape xi b (base_channels cfg * 2 ^ i) (2 * h) (2 * w)"
    and "has_shape below b (base_channels cfg * 2 ^ (i + 1)) h w"
  shows "\<exists>l y. forward_dec (built_model cfg icfg) i xi below = (l, Inr y) \<and>
           has_shape y b (base_channels cfg * 2 ^ i) (2 * h) (2 * w) \<and>
           producer (graph y) = Some (Decoder i 1)"
  using assms
  by (simp add: forward_dec_def has_shape_def built_model_def decoder_block_def
      ConvModule_init_def Upsample_def BasicConvBlock_forward_def layer_ok mult.commute)


lemma default_stages_rate:
  "default_stages cfg \<Longrightarrow> downsamples cfg = [True, True, True, True] \<Longrightarrow>
   whole_downsample_rate_spec (strides cfg) (downsamples cfg) (nat (num_stages cfg)) = 16"
  by (simp add: whole_downsample_rate_spec_def default_stages_def upt_conv_Cons)

lemma forward_built_default:
  assumes "lengths_ok cfg \<and> m = built_model cfg icfg"
    and "default_stages cfg" and "downsamples cfg = [True, True, True, True]"
    and "has_shape x b (in_channels cfg) hh ww"
    and "hh mod whole_downsample_rate_spec (strides cfg) (downsamples cfg)
                  (nat (num_stages cfg)) = 0"
    and "ww mod whole_downsample_rate_spec (strides cfg) (downsamples cfg)
                  (nat (num_stages cfg)) = 0"
  shows "\<exists>l x4 dec3 dec2 dec1 dec0.
           forward m x = (l, Inr [x4, dec3, dec2, dec1, dec0]) \<and>
           map channels [x4, dec3, dec2, dec1, dec0] =
             [base_channels cfg * 16, base_channels cfg * 8, base_channels cfg * 4,
              base_channels cfg * 2, base_channels cfg * 1] \<and>
           map (\<lambda>t. producer (graph t)) [x4, dec3, dec2, dec1, dec0] =
             [Some (Effu_c2 4 0 1), Some (Decoder 3 1), Some (Decoder 2 1),
              Some (Decoder 1 1), Some (Decoder 0 1)] \<and>
           map batch [x4, dec3, dec2, dec1, dec0] = [b, b, b, b, b] \<and>
           map height [x4, dec3, dec2, dec1, dec0] =
             [hh div 16, hh div 8, hh div 4, hh div 2, hh] \<and>
           map width [x4, dec3, dec2, dec1, dec0] =
             [ww div 16, ww div 8, ww div 4, ww div 2, ww]"
proof -
  from assms(1) have lo: "lengths_ok cfg" and m: "m = built_model cfg icfg"
    by simp_all
  have rate: "whole_downsample_rate_spec (strides cfg) (downsamples cfg)
                (nat (num_stages cfg)) = 16"
    using assms(2,3) by (rule default_stages_rate)
  from assms(5,6) obtain h w where hw: "hh = 16 * h" "ww = 16 * w"
    unfolding rate by (auto simp: mod_eq_0_iff_dvd elim!: dvdE)
  have ns: "num_stages cfg = 5"
    using assms(2) by (simp add: default_stages_def)
  have chk: "check_input_divisible m x = ([], Inr ())"
    using assms(4) unfolding m check_input_divisible_built[OF lo] rate
    by (simp add: has_shape_def hw ok_def)
  have sx: "has_shape x b (in_channels cfg) (16 * h) (16 * w)"
    using assms(4) by (simp add: hw)
  from default_x0[OF assms(2) sx, of icfg] obtain l0 x0 where
    x0: "forward_x0 m x = (l0, Inr x0)" and s0: "has_shape x0 b (base_channels cfg) (16 * h) (16 * w)"
    unfolding m by blast
  from default_x1[OF assms(2) s0, of icfg] obtain l1 x1 where
    x1: "forward_x1 m x0 = (l1, Inr x1)"
    and s1: "has_shape x1 b (2 * base_channels cfg) (8 * h) (8 * w)"
    unfolding m by blast
  from default_x2[OF assms(2) s0 s1, of icfg] obtain l2 x2 where
    x2: "forward_x2 m x0 x1 = (l2, Inr x2)"
    and s2: "has_shape x2 b (4 * base_channels cfg) (4 * h) (4 * w)"
    unfolding m by blast
  from default_x3[OF assms(2) s0 s1 s2, of icfg] obtain l3 x3 where
    x3: "forward_x3 m x0 x1 x2 = (l3, Inr x3)"
    and s3: "has_shape x3 b (8 * base_channels cfg) (2 * h) (2 * w)"
    unfolding m by blast
  from default_x4[OF assms(2) s0 s1 s2 s3, of icfg] obtain l4 x4 where
    x4: "forward_x4 m x0 x1 x2 x3 = (l4, Inr x4)"
    and s4: "has_shape x4 b (16 * base_channels cfg) h w"
    and p4: "producer (graph x4) = Some (Effu_c2 4 0 1)"
    unfolding m by blast
  have "has_shape x3 b (base_channels cfg * 2 ^ 3) (2 * h) (2 * w)"
    "has_shape x4 b (base_channels cfg * 2 ^ (3 + 1)) h w"
    using s3 s4 by (simp_all add: has_shape_def)
  from default_dec[OF ns _ this, of icfg] obtain k3 d3 where
    d3: "forward_dec m 3 x3 x4 = (k3, Inr d3)"
    and t3: "has_shape d3 b (base_channels cfg * 2 ^ 3) (2 * h) (2 * w)"
    and q3: "producer (graph d3) = Some (Decoder 3 1)"
    unfolding m by auto
  have "has_shape x2 b (base_channels cfg * 2 ^ 2) (2 * (2 * h)) (2 * (2 * w))"
    "has_shape d3 b (base_channels cfg * 2 ^ (2 + 1)) (2 * h) (2 * w)"
    using s2 t3 by (simp_all add: has_shape_def)
  from default_dec[OF ns _ this, of icfg] obtain k2 d2 where
    d2: "forward_dec m 2 x2 d3 = (k2, Inr d2)"
    and t2: "has_shape d2 b (base_channels cfg * 2 ^ 2) (2 * (2 * h)) (2 * (2 * w))"
    and q2: "producer (graph d2) = Some (Decoder 2 1)"
    unfolding m by auto
  have "has_shape x1 b (base_channels cfg * 2 ^ 1) (2 * (4 * h)) (2 * (4 * w))"
    "has_shape d2 b (base_channels cfg * 2 ^ (1 + 1)) (4 * h) (4 * w)"
    using s1 t2 by (simp_all add: has_shape_def)
  from default_dec[OF ns _ this, of icfg] obtain k1 d1 where
    d1: "forward_dec m 1 x1 d2 = (k1, Inr d1)"
    and t1: "has_shape d1 b (base_channels cfg * 2 ^ 1) (2 * (4 * h)) (2 * (4 * w))"
    and q1: "producer (graph d1) = Some (Decoder 1 1)"
    unfolding m by auto
  have "has_shape x0 b (base_channels cfg * 2 ^ 0) (2 * (8 * h)) (2 * (8 * w))"
    "has_shape d1 b (base_channels cfg * 2 ^ (0 + 1)) (8 * h) (8 * w)"
    using s0 t1 by (simp_all add: has_shape_def)
  from default_dec[OF ns _ this, of icfg] obtain k0 d0 where
    d0: "forward_dec m 0 x0 d1 = (k0, Inr d0)"
    and t0: "has_shape d0 b (base_channels cfg * 2 ^ 0) (2 * (8 * h)) (2 * (8 * w))"
    and q0: "producer (graph d0) = Some (Decoder 0 1)"
    unfolding m by auto
  have "forward m x = (l0 @ l1 @ l2 @ l3 @ l4 @ k3 @ k2 @ k1 @ k0, Inr [x4, d3, d2, d1, d0])"
    using chk x0 x1 x2 x3 x4 d3 d2 d1 d0 by (simp add: forward_def cbind_Pair_Inr_case ok_def)
  moreover have "map channels [x4, d3, d2, d1, d0] =
             [base_channels cfg * 16, base_channels cfg * 8, base_channels cfg * 4,
              base_channels cfg * 2, base_channels cfg * 1]"
    using s4 t3 t2 t1 t0 by (simp add: has_shape_def)
  moreover have "map (\<lambda>t. producer (graph t)) [x4, d3, d2, d1, d0] =
             [Some (Effu_c2 4 0 1), Some (Decoder 3 1), Some (Decoder 2 1),
              Some (Decoder 1 1), Some (Decoder 0 1)]"
    using p4 q3 q2 q1 q0 by simp
  moreover have "map batch [x4, d3, d2, d1, d0] = [b, b, b, b, b]"
    using s4 t3 t2 t1 t0 by (simp add: has_shape_def)
  moreover have "map height [x4, d3, d2, d1, d0] = [hh div 16, hh div 8, hh div 4, hh div 2, hh]"
    using s4 t3 t2 t1 t0 by (simp add: has_shape_def hw)
  moreover have "map width [x4, d3, d2, d1, d0] = [ww div 16, ww div 8, ww div 4, ww div 2, ww]"
    using s4 t3 t2 t1 t0 by (simp add: has_shape_def hw)
  ultimately show ?thesis
    by - (rule exI conjI | assumption)+
qed

lemma default_config_stages: "default_stages default_config"
  by (simp add: default_stages_def default_config_def)



subsection \<open>The pooling flags\<close>

lemma built_model_downsamples:
  "built_model (cfg\<lparr>downsamples := ds\<rparr>) icfg = (built_model cfg icfg)\<lparr>self_downsamples := ds\<rparr>"
  by (simp add: built_model_def encoder_block_def decoder_block_def fusion_conv_def
      fusion_channels_def encoder_in_channels_def)

lemma forward_body_downsamples:
  "forward_x0 (m\<lparr>self_downsamples := ds\<rparr>) = forward_x0 m"
  "forward_x1 (m\<lparr>self_downsamples := ds\<rparr>) = forward_x1 m"
  "forward_x2 (m\<lparr>self_downsamples := ds\<rparr>) = forward_x2 m"
  "forward_x3 (m\<lparr>self_downsamples := ds\<rparr>) = forward_x3 m"
  "forward_x4 (m\<lparr>self_downsamples := ds\<rparr>) = forward_x4 m"
  "forward_dec (m\<lparr>self_downsamples := ds\<rparr>) = forward_dec m"
  by (simp_all add: fun_eq_iff forward_x0_def forward_x1_def forward_x2_def forward_x3_def
      forward_x4_def forward_dec_def)

text \<open>
  C10. \<^verbatim>\<open>downsamples\<close> influences only the divisibility assertion of the forward
  pass. Two configurations that differ only in \<^verbatim>\<open>downsamples\<close> construct models that
  differ only in the attribute \<^verbatim>\<open>self.downsamples\<close>; the pooling layers are built with
  the fixed factors 2, 4, 8 and 16; and on an input that both models accept, the two
  forward passes return the same events and the same tensors, with the same graphs
  over the same layers.
\<close>

theorem downsamples_only_checked:
  assumes "AMDNet_EFFU_init cfg = (w, Inr m)"
    and "AMDNet_EFFU_init (cfg\<lparr>downsamples := ds\<rparr>) = (w', Inr m')"
  shows "m' = m\<lparr>self_downsamples := ds\<rparr> \<and>
         pool_2 m' = MaxPool2d 2 2 True \<and> pool_4 m' = MaxPool2d 4 4 True \<and>
         pool_8 m' = MaxPool2d 8 8 True \<and> pool_16 m' = MaxPool2d 16 16 True \<and>
         (check_input_divisible m x = ok () \<and> check_input_divisible m' x = ok () \<longrightarrow>
            forward m' x = forward m x)"
proof -
  from AMDNet_EFFU_init_Inr[OF assms(1)] obtain icfg where
    ip: "init_pretrained (pretrained cfg) (init_cfg cfg) = (w, Inr icfg)"
    and m: "m = built_model cfg icfg" by blast
  from AMDNet_EFFU_init_Inr[OF assms(2)] obtain icfg' where
    ip': "init_pretrained (pretrained cfg) (init_cfg cfg) = (w', Inr icfg')"
    and m': "m' = built_model (cfg\<lparr>downsamples := ds\<rparr>) icfg'" by auto
  from ip ip' have "icfg' = icfg" by simp
  then have eq: "m' = m\<lparr>self_downsamples := ds\<rparr>"
    by (simp add: m m' built_model_downsamples)
  have pools: "pool_2 m' = MaxPool2d 2 2 True \<and> pool_4 m' = MaxPool2d 4 4 True \<and>
         pool_8 m' = MaxPool2d 8 8 True \<and> pool_16 m' = MaxPool2d 16 16 True"
    by (simp add: m' built_model_def)
  have "forward m' x = forward m x"
    if "check_input_divisible m x = ok ()" "check_input_divisible m' x = ok ()"
    using that unfolding forward_def eq forward_body_downsamples by simp
  with eq pools show ?thesis by blast
qed

theorem downsamples_only_checked_witness:
  "forward (built_model (default_config\<lparr>downsamples := [False, False, False, False]\<rparr>)
              default_init_cfg)
      \<lparr>batch = 1, channels = 3, height = 32, width = 48, graph = Input\<rparr> =
   forward (built_model default_config default_init_cfg)
      \<lparr>batch = 1, channels = 3, height = 32, width = 48, graph = Input\<rparr> \<and>
   check_input_divisible (built_model default_config default_init_cfg)
      \<lparr>batch = 1, channels = 3, height = 32, width = 48, graph = Input\<rparr> = ok () \<and>
   whole_downsample_rate_spec [1, 1, 1, 1, 1] [False, False, False, False] 5 = 1 \<and>
   whole_downsample_rate_spec [1, 1, 1, 1, 1] [True, True, True, True] 5 = 16"
proof -
  let ?x = "\<lparr>batch = 1, channels = 3, height = 32, width = 48, graph = Input\<rparr>"
  let ?c = "default_config\<lparr>downsamples := [False, False, False, False]\<rparr>"
  have i2: "AMDNet_EFFU_init ?c = ([], Inr (built_model ?c default_init_cfg))"
    by (rule AMDNet_EFFU_init_closed)
       (simp_all add: default_config_def init_pretrained_def lengths_ok_def)
  have r1: "whole_downsample_rate_spec [1, 1, 1, 1, 1] [False, False, False, False] 5 = 1"
    and r16: "whole_downsample_rate_spec [1, 1, 1, 1, 1] [True, True, True, True] 5 = 16"
    by (simp_all add: whole_downsample_rate_spec_def upt_conv_Cons)
  have lo: "lengths_ok default_config" "lengths_ok ?c"
    by (simp_all add: lengths_ok_def default_config_def)
  have c1: "check_input_divisible (built_model default_config default_init_cfg) ?x = ok ()"
    unfolding check_input_divisible_built[OF lo(1)]
    by (simp add: default_config_def r16)
  have c2: "check_input_divisible (built_model ?c default_init_cfg) ?x = ok ()"
    unfolding check_input_divisible_built[OF lo(2)]
    by (simp add: default_config_def r1)
  from downsamples_only_checked[OF default_config_init i2, of ?x] c1 c2
  have "forward (built_model ?c default_init_cfg) ?x =
        forward (built_model default_config default_init_cfg) ?x"
    by blast
  with c1 r1 r16 show ?thesis by blast
qed

subsection \<open>The five levels of the forward pass\<close>

lemma bounded_ok [simp]: "bounded_comp P E (ok a)"
  by (simp add: bounded_comp_def ok_def)

lemma bounded_raise [simp]: "bounded_comp P E (raise e) \<longleftrightarrow> E e"
  by (simp add: bounded_comp_def raise_def)

lemma bounded_cbind:
  "bounded_comp P E m \<Longrightarrow> (\<And>a. bounded_comp P E (f a)) \<Longrightarrow> bounded_comp P E (cbind m f)"
proof -
  assume m: "bounded_comp P E m" and f: "\<And>a. bounded_comp P E (f a)"
  show ?thesis
  proof (cases m)
    case (Pair l r)
    show ?thesis
    proof (cases r)
      case (Inl e)
      with Pair m show ?thesis by (simp add: bounded_comp_def cbind_def)
    next
      case (Inr a)
      obtain l' r' where fa: "f a = (l', r')" by (cases "f a")
      with f[of a] Pair Inr m show ?thesis
        by (simp add: bounded_comp_def cbind_def)
    qed
  qed
qed

lemma bounded_index: "E IndexError \<Longrightarrow> bounded_comp P E (index xs i)"
  by (simp add: index_def)

lemma bounded_emit: "P ev \<Longrightarrow> bounded_comp P E (emit ev)"
  by (simp add: bounded_comp_def emit_def)

lemma bounded_ConvModule:
  "P (ExecConv mid) \<Longrightarrow> E RuntimeError \<Longrightarrow> bounded_comp P E (ConvModule_forward mid cm x)"
  by (auto simp: ConvModule_forward_def intro!: bounded_cbind bounded_emit)

lemma bounded_CBAM:
  "P (ExecCBAM mid) \<Longrightarrow> E RuntimeError \<Longrightarrow> bounded_comp P E (CBAMBlock_forward mid cb x)"
  by (auto simp: CBAMBlock_forward_def intro!: bounded_cbind bounded_emit)

lemma bounded_MaxPool:
  "P (ExecMaxPool (mp_kernel_size mp)) \<Longrightarrow> E RuntimeError \<Longrightarrow>
   bounded_comp P E (MaxPool2d_forward mp x)"
  by (auto simp: MaxPool2d_forward_def intro!: bounded_cbind bounded_emit)

lemma bounded_Upsample:
  "P (ExecUpsample (us_scale_factor us)) \<Longrightarrow> bounded_comp P E (Upsample_forward us x)"
  by (auto simp: Upsample_forward_def intro!: bounded_cbind bounded_emit)

lemma bounded_cat:
  "P ExecCat \<Longrightarrow> E RuntimeError \<Longrightarrow> bounded_comp P E (torch_cat ts)"
  by (auto simp: torch_cat_def split: list.splits intro!: bounded_cbind bounded_emit)

lemma bounded_Sequential:
  "(\<And>j m y. bounded_comp P E (f j m y)) \<Longrightarrow> bounded_comp P E (Sequential_forward f k ms x)"
  by (induction ms arbitrary: k x) (auto intro!: bounded_cbind)

lemma bounded_BasicConvBlock:
  "(\<And>j. P (ExecConv (mid j))) \<Longrightarrow> E RuntimeError \<Longrightarrow>
   bounded_comp P E (BasicConvBlock_forward mid blk x)"
  by (auto simp: BasicConvBlock_forward_def intro!: bounded_Sequential bounded_ConvModule)

lemma bounded_effu_c2:
  "i < 5 \<Longrightarrow> bounded_comp (event_below 5) layer_error (effu_c2_forward i sq x)"
  unfolding effu_c2_forward_def
  by (intro bounded_Sequential bounded_BasicConvBlock) simp_all

lemma bounded_effu_c1:
  "i < 4 \<Longrightarrow> bounded_comp (event_below 5) layer_error (effu_c1_forward i sq x)"
  unfolding effu_c1_forward_def
  by (intro bounded_Sequential bounded_ConvModule) simp_all

lemmas bounded_intros = bounded_cbind bounded_index bounded_effu_c2 bounded_effu_c1
  bounded_CBAM bounded_MaxPool bounded_cat bounded_Upsample bounded_BasicConvBlock

lemma bounded_forward_body:
  "bounded_comp (event_below 5) layer_error (forward_x0 m x)"
  "bounded_comp (event_below 5) layer_error (forward_x1 m x0)"
  "bounded_comp (event_below 5) layer_error (forward_x2 m x0 x1)"
  "bounded_comp (event_below 5) layer_error (forward_x3 m x0 x1 x2)"
  "bounded_comp (event_below 5) layer_error (forward_x4 m x0 x1 x2 x3)"
  unfolding forward_x0_def forward_x1_def forward_x2_def forward_x3_def forward_x4_def
  by (intro bounded_intros; simp)+

lemma bounded_forward_dec:
  "i < 4 \<Longrightarrow> bounded_comp (event_below 5) layer_error (forward_dec m i xi below)"
  unfolding forward_dec_def
  by (intro bounded_intros; simp)


lemma bounded_mono:
  "bounded_comp P E c \<Longrightarrow> (\<And>e. E e \<Longrightarrow> E' e) \<Longrightarrow> bounded_comp P E' c"
  by (auto simp: bounded_comp_def split: sum.splits)

lemma bounded_forward_built:
  assumes "lengths_ok cfg"
  shows "bounded_comp (event_below 5)
           (\<lambda>e. layer_error e \<or>
                 (e = AssertionError (NotDivisible (height x) (width x)
                        (whole_downsample_rate_spec (strides cfg) (downsamples cfg)
                           (nat (num_stages cfg)))
                        (num_stages cfg) (strides cfg) (downsamples cfg)) \<and>
                  \<not> (height x mod whole_downsample_rate_spec (strides cfg) (downsamples cfg)
                                       (nat (num_stages cfg)) = 0 \<and>
                      width x mod whole_downsample_rate_spec (strides cfg) (downsamples cfg)
                                       (nat (num_stages cfg)) = 0)))
           (forward (built_model cfg icfg) x)"
  unfolding forward_def check_input_divisible_built[OF assms]
  apply (intro bounded_cbind)
            apply (simp add: py_assert_def)
           apply (rule bounded_mono[OF bounded_forward_body(1)], simp)
          apply (rule bounded_mono[OF bounded_forward_body(2)], simp)
         apply (rule bounded_mono[OF bounded_forward_body(3)], simp)
        apply (rule bounded_mono[OF bounded_forward_body(4)], simp)
       apply (rule bounded_mono[OF bounded_forward_body(5)], simp)
      apply (rule bounded_mono[OF bounded_forward_dec], simp, simp)
     apply (rule bounded_mono[OF bounded_forward_dec], simp, simp)
    apply (rule bounded_mono[OF bounded_forward_dec], simp, simp)
   apply (rule bounded_mono[OF bounded_forward_dec], simp, simp)
  apply simp
  done

lemma forward_Inr_needs_five:
  assumes "forward m x = (l, Inr outs)"
  shows "4 < length (effu_c2 m)"
proof -
  from assms obtain x0 x1 x2 x3 l4 x4 where "forward_x4 m x0 x1 x2 x3 = (l4, Inr x4)"
    unfolding forward_def cbind_Inr_iff by blast
  then obtain l' c2 where "index (effu_c2 m) 4 = (l', Inr c2)"
    unfolding forward_x4_def cbind_Inr_iff by blast
  then show ?thesis
    by (auto simp: index_def raise_def split: if_splits)
qed

lemma index_take_append:
  "k < n \<Longrightarrow> n \<le> length xs \<Longrightarrow> index (take n xs @ ys) k = index xs k"
  by (simp add: index_def nth_append)

lemma forward_beyond_five:
  assumes "5 \<le> length (effu_c2 m)" "4 \<le> length (effu_c1 m)" "4 \<le> length (effu_cbam m)"
    "4 \<le> length (decoder m)"
  shows "forward (m\<lparr>effu_cbam := take 4 (effu_cbam m) @ cb, effu_c1 := take 4 (effu_c1 m) @ c1,
                    effu_c2 := take 5 (effu_c2 m) @ c2, decoder := take 4 (decoder m) @ dec\<rparr>) x
         = forward m x"
proof -
  let ?m = "m\<lparr>effu_cbam := take 4 (effu_cbam m) @ cb, effu_c1 := take 4 (effu_c1 m) @ c1,
                    effu_c2 := take 5 (effu_c2 m) @ c2, decoder := take 4 (decoder m) @ dec\<rparr>"
  have chk: "check_input_divisible ?m = check_input_divisible m"
  proof -
    have "rate_loop ?m r is = rate_loop m r is" for r "is"
      by (induction "is" arbitrary: r) (simp_all cong: if_cong)
    then show ?thesis
      by (simp add: fun_eq_iff check_input_divisible_def)
  qed
  have body: "forward_x0 ?m = forward_x0 m" "forward_x1 ?m = forward_x1 m"
    "forward_x2 ?m = forward_x2 m" "forward_x3 ?m = forward_x3 m" "forward_x4 ?m = forward_x4 m"
    using assms
    by (simp_all add: fun_eq_iff forward_x0_def forward_x1_def forward_x2_def forward_x3_def
        forward_x4_def index_take_append del: index_in index_out)
  have dec: "forward_dec ?m i = forward_dec m i" if "i < 4" for i
    using assms that by (simp add: fun_eq_iff forward_dec_def index_take_append del: index_in index_out)
  show ?thesis
    unfolding forward_def chk body by (simp add: dec)
qed


lemma four_stage_init:
  "AMDNet_EFFU_init four_stage_config = ([], Inr (built_model four_stage_config default_init_cfg))"
  by (rule AMDNet_EFFU_init_closed)
     (simp_all add: four_stage_config_def default_config_def init_pretrained_def lengths_ok_def)

lemma six_stage_init:
  "AMDNet_EFFU_init six_stage_config = ([], Inr (built_model six_stage_config default_init_cfg))"
  by (rule AMDNet_EFFU_init_closed)
     (simp_all add: six_stage_config_def default_config_def init_pretrained_def lengths_ok_def)

lemma four_stage_rate:
  "whole_downsample_rate_spec (strides four_stage_config) (downsamples four_stage_config)
     (nat (num_stages four_stage_config)) = 8"
  by (simp add: whole_downsample_rate_spec_def four_stage_config_def default_config_def
      upt_conv_Cons)


lemma four_stage_index_error:
  "snd (forward (built_model four_stage_config default_init_cfg)
      \<lparr>batch = 1, channels = 3, height = 8, width = 8, graph = Input\<rparr>) = Inl IndexError"
proof -
  have lo: "lengths_ok four_stage_config"
    by (simp add: lengths_ok_def four_stage_config_def default_config_def)
  have u: "[0..<4] = [0::nat, 1, 2, 3]" "[1..<4] = [1::nat, 2, 3]" "[0..<3] = [0::nat, 1, 2]"
    "[0..<2] = [0::nat, 1]"
    by (simp_all add: upt_conv_Cons)
  show ?thesis
    unfolding forward_def check_input_divisible_built[OF lo] four_stage_rate
    by (simp add: four_stage_config_def default_config_def built_model_def u
        forward_x0_def forward_x1_def forward_x2_def forward_x3_def forward_x4_def
        encoder_block_def encoder_in_channels_def fusion_conv_def fusion_channels_closed
        ConvModule_init_def CBAMBlock_init_def effu_c2_forward_def effu_c1_forward_def
        BasicConvBlock_forward_def ConvModule_forward_def CBAMBlock_forward_def
        MaxPool2d_forward_def torch_cat_def emit_def MaxPool2d_def pool_out_size_def Let_def
        conv_out_size_def cbind_Pair_Inr_case ok_def raise_def)
qed



subsection \<open>The wiring of the fusion blocks\<close>

lemma MaxPool2d_forward_Inr:
  "MaxPool2d_forward mp x = (l, Inr y) \<Longrightarrow>
   y = x\<lparr>height := pool_out_size (height x) mp, width := pool_out_size (width x) mp,
         graph := MaxPoolE mp (graph x)\<rparr>"
  by (auto simp: MaxPool2d_forward_def emit_def cbind_Pair_Inr raise_def ok_def split: if_splits)

lemma CBAMBlock_forward_Inr:
  "CBAMBlock_forward mid cb x = (l, Inr y) \<Longrightarrow>
   channels x = cbam_channels cb \<and> y = x\<lparr>graph := CBAME mid cb (graph x)\<rparr>"
  by (auto simp: CBAMBlock_forward_def emit_def cbind_Pair_Inr raise_def ok_def split: if_splits)

lemma ConvModule_forward_Inr:
  "ConvModule_forward mid cm x = (l, Inr y) \<Longrightarrow>
   channels x = cm_in_channels cm \<and> graph y = ConvE mid cm (graph x)"
  by (auto simp: ConvModule_forward_def emit_def cbind_Pair_Inr raise_def ok_def split: if_splits)

lemma torch_cat_Inr:
  "torch_cat ts = (l, Inr y) \<Longrightarrow>
   channels y = sum_list (map channels ts) \<and> graph y = CatE (map graph ts)"
  by (auto simp: torch_cat_def emit_def cbind_Pair_Inr raise_def ok_def
      split: list.splits if_splits)

lemma conv_chain_Inr:
  "Sequential_forward (\<lambda>j. ConvModule_forward (mid j)) k cms x = (l, Inr y) \<Longrightarrow>
   graph y = conv_chain mid k cms (graph x)"
proof (induction cms arbitrary: k x l)
  case Nil
  then show ?case by (simp add: ok_def)
next
  case (Cons cm cms)
  from Cons.prems obtain l1 a l2 where
    a: "ConvModule_forward (mid k) cm x = (l1, Inr a)"
    and r: "Sequential_forward (\<lambda>j. ConvModule_forward (mid j)) (Suc k) cms a = (l2, Inr y)"
    by (auto simp: cbind_Inr_iff)
  from Cons.IH[OF r] ConvModule_forward_Inr[OF a] show ?case by simp
qed

lemma effu_c2_forward_Inr:
  "effu_c2_forward i [blk] x = (l, Inr y) \<Longrightarrow>
   graph y = conv_chain (Effu_c2 i 0) 0 (bcb_convs blk) (graph x)"
  by (auto simp: effu_c2_forward_def BasicConvBlock_forward_def cbind_Inr_iff ok_def
      dest: conv_chain_Inr)

lemma effu_c1_forward_Inr:
  "effu_c1_forward i [cm] x = (l, Inr y) \<Longrightarrow> graph y = ConvE (Effu_c1 i 0) cm (graph x)"
  by (auto simp: effu_c1_forward_def cbind_Inr_iff ok_def dest: ConvModule_forward_Inr)

lemma built_lists:
  "i < nat (num_stages cfg) \<Longrightarrow> effu_c2 (built_model cfg icfg) ! i = [encoder_block cfg i]"
  "Suc i < nat (num_stages cfg) \<Longrightarrow>
     effu_c1 (built_model cfg icfg) ! i = [fusion_conv cfg (Suc i)]"
  "Suc i < nat (num_stages cfg) \<Longrightarrow>
     effu_cbam (built_model cfg icfg) ! i = CBAMBlock_init (fusion_channels cfg (Suc i))"
  "Suc i < nat (num_stages cfg) \<Longrightarrow> decoder (built_model cfg icfg) ! i = decoder_block cfg i"
  "length (effu_c2 (built_model cfg icfg)) = nat (num_stages cfg)"
  "length (effu_c1 (built_model cfg icfg)) = nat (num_stages cfg) - 1"
  "length (effu_cbam (built_model cfg icfg)) = nat (num_stages cfg) - 1"
  "length (decoder (built_model cfg icfg)) = nat (num_stages cfg) - 1"
  "pool_2 (built_model cfg icfg) = MaxPool2d 2 2 True"
  "pool_4 (built_model cfg icfg) = MaxPool2d 4 4 True"
  "pool_8 (built_model cfg icfg) = MaxPool2d 8 8 True"
  "pool_16 (built_model cfg icfg) = MaxPool2d 16 16 True"
  by (auto simp: built_model_def nat_diff_distrib)

lemma x0_wired:
  assumes "4 < nat (num_stages cfg)"
    and "forward_x0 (built_model cfg icfg) x = (l, Inr y)"
  shows "graph y = encoder_graph cfg 0 (graph x)"
  using assms
  by (auto simp: forward_x0_def built_lists encoder_graph_def dest: effu_c2_forward_Inr)

lemma x1_wired:
  assumes "4 < nat (num_stages cfg)"
    and "forward_x1 (built_model cfg icfg) x0 = (l, Inr y)"
  shows "\<exists>c. fusion_level cfg 1 [x0] c y"
proof -
  from assms obtain lp c la a lb b ly where
    c: "MaxPool2d_forward (MaxPool2d 2 2 True) x0 = (lp, Inr c)"
    and a: "CBAMBlock_forward (Effu_cbam 0) (CBAMBlock_init (fusion_channels cfg 1)) c = (la, Inr a)"
    and b: "effu_c1_forward 0 [fusion_conv cfg 1] a = (lb, Inr b)"
    and y: "effu_c2_forward 1 [encoder_block cfg 1] b = (ly, Inr y)"
    by (auto simp: forward_x1_def built_lists cbind_Inr_iff)
  have "graph c = fusion_input_graph 1 (map graph [x0])"
    using MaxPool2d_forward_Inr[OF c] by (simp add: fusion_input_graph_def)
  moreover have "channels c = fusion_channels cfg 1"
    using CBAMBlock_forward_Inr[OF a] by (simp add: CBAMBlock_init_def)
  moreover have "graph y = encoder_graph cfg 1
         (ConvE (Effu_c1 (1 - 1) 0) (fusion_conv cfg 1)
            (CBAME (Effu_cbam (1 - 1)) (CBAMBlock_init (fusion_channels cfg 1)) (graph c)))"
    using CBAMBlock_forward_Inr[OF a] effu_c1_forward_Inr[OF b] effu_c2_forward_Inr[OF y]
    by (simp add: encoder_graph_def)
  ultimately show ?thesis
    unfolding fusion_level_def by blast
qed


lemma upt_small: "[0..<2] = [0::nat, 1]" "[0..<3] = [0::nat, 1, 2]" "[0..<4] = [0::nat, 1, 2, 3]"
  by (simp_all add: upt_conv_Cons)

lemma x2_wired:
  assumes "4 < nat (num_stages cfg)"
    and "forward_x2 (built_model cfg icfg) x0 x1 = (l, Inr y)"
  shows "\<exists>c. fusion_level cfg 2 [x0, x1] c y"
proof -
  from assms obtain l0 p0 l1 p1 lc c la a lb b ly where
    p: "MaxPool2d_forward (MaxPool2d 4 4 True) x0 = (l0, Inr p0)"
       "MaxPool2d_forward (MaxPool2d 2 2 True) x1 = (l1, Inr p1)"
    and c: "torch_cat [p0, p1] = (lc, Inr c)"
    and a: "CBAMBlock_forward (Effu_cbam 1) (CBAMBlock_init (fusion_channels cfg 2)) c = (la, Inr a)"
    and b: "effu_c1_forward 1 [fusion_conv cfg 2] a = (lb, Inr b)"
    and y: "effu_c2_forward 2 [encoder_block cfg 2] b = (ly, Inr y)"
    by (auto simp: forward_x2_def built_lists cbind_Inr_iff numeral_2_eq_2)
  have "graph c = fusion_input_graph 2 (map graph [x0, x1])"
    using p[THEN MaxPool2d_forward_Inr] torch_cat_Inr[OF c]
    by (simp add: fusion_input_graph_def upt_small)
  moreover have "channels c = fusion_channels cfg 2"
    using CBAMBlock_forward_Inr[OF a] by (simp add: CBAMBlock_init_def)
  moreover have "graph y = encoder_graph cfg 2
         (ConvE (Effu_c1 (2 - 1) 0) (fusion_conv cfg 2)
            (CBAME (Effu_cbam (2 - 1)) (CBAMBlock_init (fusion_channels cfg 2)) (graph c)))"
    using CBAMBlock_forward_Inr[OF a] effu_c1_forward_Inr[OF b] effu_c2_forward_Inr[OF y]
    by (simp add: encoder_graph_def)
  ultimately show ?thesis
    unfolding fusion_level_def by blast
qed

lemma x3_wired:
  assumes "4 < nat (num_stages cfg)"
    and "forward_x3 (built_model cfg icfg) x0 x1 x2 = (l, Inr y)"
  shows "\<exists>c. fusion_level cfg 3 [x0, x1, x2] c y"
proof -
  from assms obtain l0 p0 l1 p1 l2 p2 lc c la a lb b ly where
    p: "MaxPool2d_forward (MaxPool2d 8 8 True) x0 = (l0, Inr p0)"
       "MaxPool2d_forward (MaxPool2d 4 4 True) x1 = (l1, Inr p1)"
       "MaxPool2d_forward (MaxPool2d 2 2 True) x2 = (l2, Inr p2)"
    and c: "torch_cat [p0, p1, p2] = (lc, Inr c)"
    and a: "CBAMBlock_forward (Effu_cbam 2) (CBAMBlock_init (fusion_channels cfg 3)) c = (la, Inr a)"
    and b: "effu_c1_forward 2 [fusion_conv cfg 3] a = (lb, Inr b)"
    and y: "effu_c2_forward 3 [encoder_block cfg 3] b = (ly, Inr y)"
    by (auto simp: forward_x3_def built_lists cbind_Inr_iff numeral_3_eq_3)
  have "graph c = fusion_input_graph 3 (map graph [x0, x1, x2])"
    using p[THEN MaxPool2d_forward_Inr] torch_cat_Inr[OF c]
    by (simp add: fusion_input_graph_def upt_small)
  moreover have "channels c = fusion_channels cfg 3"
    using CBAMBlock_forward_Inr[OF a] by (simp add: CBAMBlock_init_def)
  moreover have "graph y = encoder_graph cfg 3
         (ConvE (Effu_c1 (3 - 1) 0) (fusion_conv cfg 3)
            (CBAME (Effu_cbam (3 - 1)) (CBAMBlock_init (fusion_channels cfg 3)) (graph c)))"
    using CBAMBlock_forward_Inr[OF a] effu_c1_forward_Inr[OF b] effu_c2_forward_Inr[OF y]
    by (simp add: encoder_graph_def)
  ultimately show ?thesis
    unfolding fusion_level_def by blast
qed

lemma x4_wired:
  assumes "4 < nat (num_stages cfg)"
    and "forward_x4 (built_model cfg icfg) x0 x1 x2 x3 = (l, Inr y)"
  shows "\<exists>c. fusion_level cfg 4 [x0, x1, x2, x3] c y"
proof -
  from assms obtain l0 p0 l1 p1 l2 p2 l3 p3 lc c la a lb b ly where
    p: "MaxPool2d_forward (MaxPool2d 16 16 True) x0 = (l0, Inr p0)"
       "MaxPool2d_forward (MaxPool2d 8 8 True) x1 = (l1, Inr p1)"
       "MaxPool2d_forward (MaxPool2d 4 4 True) x2 = (l2, Inr p2)"
       "MaxPool2d_forward (MaxPool2d 2 2 True) x3 = (l3, Inr p3)"
    and c: "torch_cat [p0, p1, p2, p3] = (lc, Inr c)"
    and a: "CBAMBlock_forward (Effu_cbam 3) (CBAMBlock_init (fusion_channels cfg 4)) c = (la, Inr a)"
    and b: "effu_c1_forward 3 [fusion_conv cfg 4] a = (lb, Inr b)"
    and y: "effu_c2_forward 4 [encoder_block cfg 4] b = (ly, Inr y)"
    by (auto simp: forward_x4_def built_lists cbind_Inr_iff)
  have "graph c = fusion_input_graph 4 (map graph [x0, x1, x2, x3])"
    using p[THEN MaxPool2d_forward_Inr] torch_cat_Inr[OF c]
    by (simp add: fusion_input_graph_def upt_small)
  moreover have "channels c = fusion_channels cfg 4"
    using CBAMBlock_forward_Inr[OF a] by (simp add: CBAMBlock_init_def)
  moreover have "graph y = encoder_graph cfg 4
         (ConvE (Effu_c1 (4 - 1) 0) (fusion_conv cfg 4)
            (CBAME (Effu_cbam (4 - 1)) (CBAMBlock_init (fusion_channels cfg 4)) (graph c)))"
    using CBAMBlock_forward_Inr[OF a] effu_c1_forward_Inr[OF b] effu_c2_forward_Inr[OF y]
    by (simp add: encoder_graph_def)
  ultimately show ?thesis
    unfolding fusion_level_def by blast
qed




subsection \<open>The mode switch\<close>

lemma modules_self: "t \<in> set (modules t)"
  by (cases t) simp

lemma modules_child:
  "c \<in> set cs \<Longrightarrow> n \<in> set (modules c) \<Longrightarrow> n \<in> set (modules (Module k t s cs))"
  by auto

lemma concat_map_cong:
  "(\<And>x. x \<in> set xs \<Longrightarrow> f x = g x) \<Longrightarrow> concat (map f xs) = concat (map g xs)"
  by (induction xs) auto

lemma Module_train_kinds:
  "map kind (modules (Module_train b t)) = map kind (modules t)"
  "map params (modules (Module_train b t)) = map params (modules t)"
proof (induction t)
  case (Module k t s cs)
  {
    case 1
    have "concat (map (\<lambda>x. map kind (modules (Module_train b x))) cs) =
          concat (map (\<lambda>x. map kind (modules x)) cs)"
      by (rule concat_map_cong) (rule Module.IH(1))
    then show ?case
      by (simp add: map_concat o_def)
  next
    case 2
    have "concat (map (\<lambda>x. map params (modules (Module_train b x))) cs) =
          concat (map (\<lambda>x. map params (modules x)) cs)"
      by (rule concat_map_cong) (rule Module.IH(2))
    then show ?case
      by (simp add: map_concat o_def)
  }
qed

lemma Module_train_flags: "n \<in> set (modules (Module_train b t)) \<Longrightarrow> training n = b"
  by (induction t arbitrary: n) auto

lemma Module_train_bn_leaves: "bn_leaves t \<Longrightarrow> bn_leaves (Module_train b t)"
  by (induction t) auto

lemma eval_batchnorms_kinds:
  "map kind (modules (eval_batchnorms t)) = map kind (modules t) \<and>
   map params (modules (eval_batchnorms t)) = map params (modules t)"
proof (induction t rule: eval_batchnorms.induct)
  case (1 k t s cs)
  show ?case
  proof (cases "is_BatchNorm k")
    case True
    have "concat (map (\<lambda>x. map kind (modules (eval_batchnorms (Module_train False x)))) cs) =
          concat (map (\<lambda>x. map kind (modules x)) cs)"
      "concat (map (\<lambda>x. map params (modules (eval_batchnorms (Module_train False x)))) cs) =
          concat (map (\<lambda>x. map params (modules x)) cs)"
      using "1.IH"(1)[OF True]
      by (auto intro!: concat_map_cong simp: Module_train_kinds)
    with True show ?thesis
      by (simp add: map_concat o_def)
  next
    case False
    have "concat (map (\<lambda>x. map kind (modules (eval_batchnorms x))) cs) =
          concat (map (\<lambda>x. map kind (modules x)) cs)"
      "concat (map (\<lambda>x. map params (modules (eval_batchnorms x))) cs) =
          concat (map (\<lambda>x. map params (modules x)) cs)"
      using "1.IH"(2)[OF False]
      by (auto intro!: concat_map_cong)
    with False show ?thesis
      by (simp add: map_concat o_def)
  qed
qed

lemma eval_batchnorms_bn:
  "n \<in> set (modules (eval_batchnorms t)) \<Longrightarrow> is_BatchNorm (kind n) \<Longrightarrow> \<not> training n"
proof (induction t arbitrary: n rule: eval_batchnorms.induct)
  case (1 k t s cs)
  show ?case
  proof (cases "is_BatchNorm k")
    case True
    with "1.prems" "1.IH"(1)[OF True] show ?thesis
      by auto
  next
    case False
    with "1.prems" "1.IH"(2)[OF False] show ?thesis
      by auto
  qed
qed

lemma eval_batchnorms_others:
  "bn_leaves t \<Longrightarrow> (\<forall>n \<in> set (modules t). training n) \<Longrightarrow>
   n \<in> set (modules (eval_batchnorms t)) \<Longrightarrow> \<not> is_BatchNorm (kind n) \<Longrightarrow> training n"
proof (induction t arbitrary: n rule: eval_batchnorms.induct)
  case (1 k t s cs)
  show ?case
  proof (cases "is_BatchNorm k")
    case True
    with "1.prems" show ?thesis
      by auto
  next
    case False
    from "1.prems"(2) have t: "t" by simp
    have sub: "\<forall>n \<in> set (modules c). training n" if "c \<in> set cs" for c
      using "1.prems"(2) that by auto
    from "1.prems"(3) False consider "n = Module k t s (map eval_batchnorms cs)"
      | c where "c \<in> set cs" "n \<in> set (modules (eval_batchnorms c))"
      by auto
    then show ?thesis
    proof cases
      case 1
      with t show ?thesis by simp
    next
      case 2
      with "1.IH"(2)[OF False 2(1) _ sub[OF 2(1)] 2(2) "1.prems"(4)] "1.prems"(1)
      show ?thesis by simp
    qed
  qed
qed

lemma forward_stats_frozen:
  "(\<forall>n \<in> set (modules t). is_BatchNorm (kind n) \<longrightarrow> \<not> training n) \<Longrightarrow> forward_stats upd t = t"
proof (induction t)
  case (Module k t s cs)
  have "map (forward_stats upd) cs = cs"
    using Module by (intro map_idI) auto
  moreover have "\<not> (is_BatchNorm k \<and> t)"
    using Module.prems by auto
  ultimately show ?case by auto
qed

text \<open>
  C5, as amended. When \<^verbatim>\<open>train\<close> is called with \<^verbatim>\<open>mode=True\<close> and \<^verbatim>\<open>norm_eval\<close> is
  set, every sub-layer that is an instance of \<^verbatim>\<open>_BatchNorm\<close> is in evaluation mode
  after the call, so that a following forward pass leaves its running statistics as
  they are. The call changes nothing but the flags \<^verbatim>\<open>training\<close>: the classes and the
  parameters and buffers of all modules, the \<^verbatim>\<open>requires_grad\<close> flags of the weights
  among them, are those from before. In a module tree whose \<^verbatim>\<open>_BatchNorm\<close> layers are
  leaves, every other module is in training mode, as after an ordinary switch.
\<close>

theorem train_freezes_batchnorm:
  assumes "self_norm_eval self"
  shows "(\<forall>n \<in> set (modules (train self True root)). is_BatchNorm (kind n) \<longrightarrow> \<not> training n) \<and>
         (bn_leaves root \<longrightarrow>
            (\<forall>n \<in> set (modules (train self True root)). \<not> is_BatchNorm (kind n) \<longrightarrow> training n)) \<and>
         map kind (modules (train self True root)) = map kind (modules root) \<and>
         map params (modules (train self True root)) = map params (modules root) \<and>
         forward_stats upd (train self True root) = train self True root"
proof -
  have tr: "train self True root = eval_batchnorms (Module_train True root)"
    using assms by (simp add: train_def)
  have bn: "\<forall>n \<in> set (modules (train self True root)). is_BatchNorm (kind n) \<longrightarrow> \<not> training n"
    unfolding tr using eval_batchnorms_bn by blast
  have others: "\<forall>n \<in> set (modules (train self True root)). \<not> is_BatchNorm (kind n) \<longrightarrow> training n"
    if "bn_leaves root"
    unfolding tr
    using eval_batchnorms_others[OF Module_train_bn_leaves[OF that, of True]]
      Module_train_flags[of _ True root] by blast
  have frame: "map kind (modules (train self True root)) = map kind (modules root)"
    "map params (modules (train self True root)) = map params (modules root)"
    unfolding tr by (simp_all add: eval_batchnorms_kinds Module_train_kinds)
  from bn others frame forward_stats_frozen[OF bn] show ?thesis
    by blast
qed

lemma upt_lists: "[0..<5] = [0::nat, 1, 2, 3, 4]" "[1..<5] = [1::nat, 2, 3, 4]"
  "[Suc 0..<5] = [1::nat, 2, 3, 4]" "[0..<4] = [0::nat, 1, 2, 3]" "[0..<2] = [0::nat, 1]"
  by (simp_all add: upt_conv_Cons)

lemmas tree_defs = module_tree_def BasicConvBlock_tree_def ConvModule_tree_def built_model_def
  encoder_block_def decoder_block_def fusion_conv_def ConvModule_init_def CBAMBlock_init_def
  default_config_def upt_lists

lemma default_tree_bn_count:
  "length (filter (\<lambda>n. is_BatchNorm (kind n))
     (modules (module_tree (\<lambda>cb. []) (0::nat)
        (built_model (default_config\<lparr>norm_eval := True\<rparr>) default_init_cfg)))) = 22"
  by (simp add: tree_defs)

lemma default_tree_bn_leaves:
  "bn_leaves (module_tree (\<lambda>cb. []) (0::nat)
        (built_model (default_config\<lparr>norm_eval := True\<rparr>) default_init_cfg))"
  by (simp add: tree_defs)

lemma gn_tree_eval:
  "eval_batchnorms (Module_train True (module_tree (\<lambda>cb. []) (0::nat)
        (built_model (default_config\<lparr>norm_cfg := Some GN, norm_eval := True\<rparr>) default_init_cfg)))
   = module_tree (\<lambda>cb. []) (0::nat)
        (built_model (default_config\<lparr>norm_cfg := Some GN, norm_eval := True\<rparr>) default_init_cfg)"
  by (simp add: tree_defs)


theorem train_freezes_batchnorm_witness:
  "self_norm_eval (built_model (default_config\<lparr>norm_eval := True\<rparr>) default_init_cfg) \<and>
   length (filter (\<lambda>n. is_BatchNorm (kind n))
     (modules (module_tree (\<lambda>cb. []) (0::nat)
        (built_model (default_config\<lparr>norm_eval := True\<rparr>) default_init_cfg)))) = 22 \<and>
   list_all (\<lambda>n. \<not> training n) (filter (\<lambda>n. is_BatchNorm (kind n))
     (modules (train (built_model (default_config\<lparr>norm_eval := True\<rparr>) default_init_cfg) True
        (module_tree (\<lambda>cb. []) (0::nat)
           (built_model (default_config\<lparr>norm_eval := True\<rparr>) default_init_cfg))))) \<and>
   list_all training (filter (\<lambda>n. \<not> is_BatchNorm (kind n))
     (modules (train (built_model (default_config\<lparr>norm_eval := True\<rparr>) default_init_cfg) True
        (module_tree (\<lambda>cb. []) (0::nat)
           (built_model (default_config\<lparr>norm_eval := True\<rparr>) default_init_cfg))))) \<and>
   map params
     (modules (train (built_model (default_config\<lparr>norm_eval := True\<rparr>) default_init_cfg) True
        (module_tree (\<lambda>cb. []) (0::nat)
           (built_model (default_config\<lparr>norm_eval := True\<rparr>) default_init_cfg)))) =
   map params
     (modules (module_tree (\<lambda>cb. []) (0::nat)
        (built_model (default_config\<lparr>norm_eval := True\<rparr>) default_init_cfg))) \<and>
   forward_stats Suc
     (train (built_model (default_config\<lparr>norm_eval := True\<rparr>) default_init_cfg) True
        (module_tree (\<lambda>cb. []) (0::nat)
           (built_model (default_config\<lparr>norm_eval := True\<rparr>) default_init_cfg))) =
   train (built_model (default_config\<lparr>norm_eval := True\<rparr>) default_init_cfg) True
        (module_tree (\<lambda>cb. []) (0::nat)
           (built_model (default_config\<lparr>norm_eval := True\<rparr>) default_init_cfg)) \<and>
   forward_stats Suc
     (module_tree (\<lambda>cb. []) (0::nat)
        (built_model (default_config\<lparr>norm_eval := True\<rparr>) default_init_cfg)) \<noteq>
   module_tree (\<lambda>cb. []) (0::nat)
      (built_model (default_config\<lparr>norm_eval := True\<rparr>) default_init_cfg)"
proof -
  let ?m = "built_model (default_config\<lparr>norm_eval := True\<rparr>) default_init_cfg"
  let ?root = "module_tree (\<lambda>cb. []) (0::nat) ?m"
  have ne: "self_norm_eval ?m"
    by (simp add: built_model_def)
  have changes: "forward_stats Suc ?root \<noteq> ?root"
    by (simp add: tree_defs)
  from train_freezes_batchnorm[OF ne, of ?root Suc] default_tree_bn_leaves
  have "list_all (\<lambda>n. \<not> training n) (filter (\<lambda>n. is_BatchNorm (kind n))
          (modules (train ?m True ?root)))"
    and "list_all training (filter (\<lambda>n. \<not> is_BatchNorm (kind n))
          (modules (train ?m True ?root)))"
    and "map params (modules (train ?m True ?root)) = map params (modules ?root)"
    and "forward_stats Suc (train ?m True ?root) = train ?m True ?root"
    by (simp_all add: list_all_iff)
  with ne default_tree_bn_count changes show ?thesis
    by blast
qed

text \<open>
  The claim as worded, for every normalization sub-layer, fails for a model built with
  group normalization (\<^verbatim>\<open>norm_cfg=dict(type='GN')\<close>): its 22 normalization layers are
  no instances of \<^verbatim>\<open>_BatchNorm\<close> and all stay in training mode.
\<close>

theorem train_freezes_batchnorm_counterexample:
  "self_norm_eval (built_model (default_config\<lparr>norm_cfg := Some GN, norm_eval := True\<rparr>)
     default_init_cfg) \<and>
   length (filter (is_norm \<circ> kind)
     (modules (train (built_model (default_config\<lparr>norm_cfg := Some GN, norm_eval := True\<rparr>)
                        default_init_cfg) True
        (module_tree (\<lambda>cb. []) (0::nat)
           (built_model (default_config\<lparr>norm_cfg := Some GN, norm_eval := True\<rparr>)
              default_init_cfg))))) = 22 \<and>
   list_all training (filter (is_norm \<circ> kind)
     (modules (train (built_model (default_config\<lparr>norm_cfg := Some GN, norm_eval := True\<rparr>)
                        default_init_cfg) True
        (module_tree (\<lambda>cb. []) (0::nat)
           (built_model (default_config\<lparr>norm_cfg := Some GN, norm_eval := True\<rparr>)
              default_init_cfg)))))"
proof -
  let ?m = "built_model (default_config\<lparr>norm_cfg := Some GN, norm_eval := True\<rparr>) default_init_cfg"
  let ?root = "module_tree (\<lambda>cb. []) (0::nat) ?m"
  have ne: "self_norm_eval ?m"
    by (simp add: built_model_def)
  have "Module_train True ?root = ?root"
    by (simp add: tree_defs)
  then have tr: "train ?m True ?root = ?root"
    using ne gn_tree_eval by (simp add: train_def)
  have "length (filter (is_norm \<circ> kind) (modules ?root)) = 22"
    "list_all training (filter (is_norm \<circ> kind) (modules ?root))"
    by (simp_all add: tree_defs)
  with ne show ?thesis
    unfolding tr by simp
qed

end
